theory Spec2Isabelle
  imports Main
begin

section \<open>The host OCI builder (pkg/oci): a shallow embedding\<close>

text \<open>
  The development follows \<^verbatim>\<open>src/pkg/oci/builder.go\<close> and
  \<^verbatim>\<open>src/pkg/oci/go_builder.go\<close>. Go strings and byte slices are
  \<^typ>\<open>string\<close> (a list of 8-bit characters). Every error return of the source is a
  value of \<open>error\<close>; a function that can fail returns \<open>error + 'a\<close>, and a
  function that fails after it has changed the file system returns the error next to the
  state it leaves behind.
\<close>

type_synonym bytes = string

datatype error =
    ErrBuildInProgress string   \<comment> \<open>\<^verbatim>\<open>ErrBuildInProgress{job.buildDir()}\<close>\<close>
  | ErrUnsupportedRuntime string \<comment> \<open>"... functions are not yet supported by the host builder"\<close>
  | ErrFingerprint              \<comment> \<open>"error calculating fingerprint for build"\<close>
  | ErrExist string             \<comment> \<open>\<^verbatim>\<open>os.Symlink\<close>, \<^verbatim>\<open>os.Link\<close> on a path that exists\<close>
  | ErrNotExist string          \<comment> \<open>a path that is missing\<close>
  | ErrCannotReadLink           \<comment> \<open>"cannot read link"\<close>
  | ErrAbsoluteLink             \<comment> \<open>"project may not contain absolute links"\<close>
  | ErrLinkEscapesRoot          \<comment> \<open>"links must stay within project root"\<close>
  | ErrRel                      \<comment> \<open>\<^verbatim>\<open>filepath.Rel\<close>: "Rel: can't make ... relative to ..."\<close>
  | ErrTarHeader                \<comment> \<open>\<^verbatim>\<open>tar.FileInfoHeader\<close>: "sockets not supported"\<close>
  | ErrRead                     \<comment> \<open>reading the bytes of something that is not a regular file\<close>
  | ErrExternal string          \<comment> \<open>a failure reported by a collaborator: toolchain, registry,
                                    scaffolding, gzip reader, cancelled context\<close>

definition DefaultUid :: int where "DefaultUid = 1000"
definition DefaultGid :: int where "DefaultGid = 1000"

definition defaultIgnored :: "string list" where
  "defaultIgnored = [''.git'', ''.func'', ''.funcignore'', ''.gitignore'']"

section \<open>Library functions the builder calls\<close>

subsection \<open>strings\<close>

definition HasPrefix :: "string \<Rightarrow> string \<Rightarrow> bool" where
  "HasPrefix s pre = (take (length pre) s = pre)"

subsection \<open>path/filepath, for a Unix host (separator \<open>/\<close>, no volume names)\<close>

text \<open>
  The lexical path functions work on the elements between separators.
  \<open>split_path\<close> cuts a path at every \<open>/\<close>, \<open>join_sep\<close> puts the pieces back.
\<close>

fun split_path :: "string \<Rightarrow> string list" where
  "split_path [] = [[]]"
| "split_path (c # cs) =
     (if c = CHR ''/'' then [] # split_path cs
      else (case split_path cs of [] \<Rightarrow> [[c]] | x # xs \<Rightarrow> (c # x) # xs))"

fun join_sep :: "string list \<Rightarrow> string" where
  "join_sep [] = []"
| "join_sep [x] = x"
| "join_sep (x # y # ys) = x @ ''/'' @ join_sep (y # ys)"

definition IsAbs :: "string \<Rightarrow> bool" where
  "IsAbs path = (case path of [] \<Rightarrow> False | c # _ \<Rightarrow> c = CHR ''/'')"

text \<open>
  \<^verbatim>\<open>filepath.Clean\<close>: drop empty and \<open>.\<close> elements, cancel an inner \<open>..\<close> against
  the element before it, drop a \<open>..\<close> that begins a rooted path. The stack is kept
  reversed while the elements are consumed.
\<close>

definition clean_step :: "bool \<Rightarrow> string list \<Rightarrow> string \<Rightarrow> string list" where
  "clean_step rooted stk e =
     (if e = [] \<or> e = ''.'' then stk
      else if e = ''..'' then
        (case stk of
           [] \<Rightarrow> if rooted then [] else [''..'']
         | t # ts \<Rightarrow> if t = ''..'' then ''..'' # stk else ts)
      else e # stk)"

definition clean_elems :: "string \<Rightarrow> string list" where
  "clean_elems path = rev (foldl (clean_step (IsAbs path)) [] (split_path path))"

definition Clean :: "string \<Rightarrow> string" where
  "Clean path =
     (if path = [] then ''.''
      else if IsAbs path then ''/'' @ join_sep (clean_elems path)
      else if clean_elems path = [] then ''.''
      else join_sep (clean_elems path))"

text \<open>\<^verbatim>\<open>filepath.Join\<close>: leading empty elements are ignored, the rest is joined and cleaned.\<close>

fun Join :: "string list \<Rightarrow> string" where
  "Join [] = []"
| "Join (e # es) = (if e = [] then Join es else Clean (join_sep (e # es)))"

text \<open>\<^verbatim>\<open>filepath.Dir\<close>: everything up to the last separator, cleaned.\<close>

definition Dir :: "string \<Rightarrow> string" where
  "Dir path = Clean (rev (dropWhile (\<lambda>c. c \<noteq> CHR ''/'') (rev path)))"

text \<open>\<^verbatim>\<open>filepath.ToSlash\<close> is the identity where the separator is \<open>/\<close>.\<close>

definition ToSlash :: "string \<Rightarrow> string" where
  "ToSlash path = path"

text \<open>
  \<^verbatim>\<open>filepath.Rel\<close>: both paths are cleaned; the common leading elements are dropped; each
  element left of the base becomes a \<open>..\<close>. It fails when one path is rooted and the other
  is not, and when the base would have to be left through a \<open>..\<close> of its own.
\<close>

fun strip_common :: "string list \<Rightarrow> string list \<Rightarrow> string list \<times> string list" where
  "strip_common (b # bs) (t # ts) = (if b = t then strip_common bs ts else (b # bs, t # ts))"
| "strip_common bs ts = (bs, ts)"

definition path_elems :: "string \<Rightarrow> string list" where
  "path_elems p = filter (\<lambda>e. e \<noteq> []) (split_path p)"

definition Rel :: "string \<Rightarrow> string \<Rightarrow> error + string" where
  "Rel basepath targpath =
     (let base = Clean basepath; targ = Clean targpath in
      if targ = base then Inr ''.''
      else
        let base' = (if base = ''.'' then [] else base) in
        if IsAbs base' \<noteq> IsAbs targ then Inl ErrRel
        else
          (case strip_common (path_elems base') (path_elems targ) of
             (br, tr) \<Rightarrow>
               if br \<noteq> [] \<and> hd br = ''..'' then Inl ErrRel
               else Inr (join_sep (map (\<lambda>_. ''..'') br @ tr))))"

section \<open>The files the tar assembler reads\<close>

text \<open>
  What \<^verbatim>\<open>os.Lstat\<close> reports of a file: its base name, the mode bits that
  \<^verbatim>\<open>tar.FileInfoHeader\<close> copies (permissions, setuid, setgid, sticky) and its owner on the
  build host. The kind of the file is the constructor of \<open>node\<close>.
\<close>

record fileattr =
  fa_name :: string
  fa_mode :: int
  fa_uid :: int
  fa_gid :: int

datatype node =
    Regular fileattr bytes
  | Directory fileattr "node list"
  | Symlink fileattr string
  | Special fileattr   \<comment> \<open>device or named pipe\<close>
  | Socket fileattr

fun attr :: "node \<Rightarrow> fileattr" where
  "attr (Regular a _) = a"
| "attr (Directory a _) = a"
| "attr (Symlink a _) = a"
| "attr (Special a) = a"
| "attr (Socket a) = a"

fun IsDir :: "node \<Rightarrow> bool" where
  "IsDir (Directory _ _) = True"
| "IsDir _ = False"

fun IsRegular :: "node \<Rightarrow> bool" where
  "IsRegular (Regular _ _) = True"
| "IsRegular _ = False"

fun IsSymlink :: "node \<Rightarrow> bool" where
  "IsSymlink (Symlink _ _) = True"
| "IsSymlink _ = False"

fun Readlink :: "node \<Rightarrow> error + string" where
  "Readlink (Symlink _ t) = Inr t"
| "Readlink _ = Inl ErrCannotReadLink"

fun ReadAll :: "node \<Rightarrow> error + bytes" where
  "ReadAll (Regular _ bs) = Inr bs"
| "ReadAll _ = Inl ErrRead"

section \<open>archive/tar\<close>

datatype typeflag = TypeReg | TypeDir | TypeSymlink | TypeSpecial

record Header =
  h_Typeflag :: typeflag
  h_Name :: string
  h_Linkname :: string
  h_Size :: nat
  h_Mode :: int
  h_Uid :: int
  h_Gid :: int

type_synonym tar_entry = "Header \<times> bytes"

text \<open>
  \<^verbatim>\<open>tar.FileInfoHeader(fi, link)\<close>: name, mode and size from the file, the link target
  only for a symlink, and the owner ids from the host's stat record of the file.
\<close>

fun FileInfoHeader :: "node \<Rightarrow> string \<Rightarrow> error + Header" where
  "FileInfoHeader (Regular a bs) link =
     Inr \<lparr>h_Typeflag = TypeReg, h_Name = fa_name a, h_Linkname = [], h_Size = length bs,
          h_Mode = fa_mode a, h_Uid = fa_uid a, h_Gid = fa_gid a\<rparr>"
| "FileInfoHeader (Directory a _) link =
     Inr \<lparr>h_Typeflag = TypeDir, h_Name = fa_name a @ ''/'', h_Linkname = [], h_Size = 0,
          h_Mode = fa_mode a, h_Uid = fa_uid a, h_Gid = fa_gid a\<rparr>"
| "FileInfoHeader (Symlink a _) link =
     Inr \<lparr>h_Typeflag = TypeSymlink, h_Name = fa_name a, h_Linkname = link, h_Size = 0,
          h_Mode = fa_mode a, h_Uid = fa_uid a, h_Gid = fa_gid a\<rparr>"
| "FileInfoHeader (Special a) link =
     Inr \<lparr>h_Typeflag = TypeSpecial, h_Name = fa_name a, h_Linkname = [], h_Size = 0,
          h_Mode = fa_mode a, h_Uid = fa_uid a, h_Gid = fa_gid a\<rparr>"
| "FileInfoHeader (Socket a) link = Inl ErrTarHeader"

section \<open>The source data tarball\<close>

text \<open>
  \<^verbatim>\<open>validatedLinkTarget(root, path)\<close>: the raw target of the link at \<open>path\<close>, or an error
  when it is absolute or leaves the project root.
\<close>

definition validatedLinkTarget :: "string \<Rightarrow> string \<Rightarrow> node \<Rightarrow> error + string" where
  "validatedLinkTarget root path n =
     (case Readlink n of
        Inl e \<Rightarrow> Inl e
      | Inr tgt \<Rightarrow>
          if IsAbs tgt then Inl ErrAbsoluteLink
          else
            let lnkTgt = Join [Dir path, tgt] in
            (case Rel root lnkTgt of
               Inl e \<Rightarrow> Inl e
             | Inr relLnkTgt \<Rightarrow>
                 if HasPrefix relLnkTgt (''..'' @ ''/'') \<or> relLnkTgt = ''..''
                 then Inl ErrLinkEscapesRoot
                 else Inr tgt))"

text \<open>
  The function \<^verbatim>\<open>filepath.Walk\<close> calls on every entry (the closure of
  \<^verbatim>\<open>newDataTarball\<close>). It returns what the walk does next and the entries written to the
  tar stream so far.
\<close>

datatype walk_result = WalkOk | SkipDir | WalkErr error

definition visit ::
  "string \<Rightarrow> string list \<Rightarrow> string \<Rightarrow> node \<Rightarrow> tar_entry list \<Rightarrow> walk_result \<times> tar_entry list"
where
  "visit root ignored path n tw =
     (if fa_name (attr n) \<in> set ignored then ((if IsDir n then SkipDir else WalkOk), tw)
      else
        (case (if IsSymlink n then validatedLinkTarget root path n else Inr []) of
           Inl e \<Rightarrow> (WalkErr e, tw)
         | Inr lnk \<Rightarrow>
             (case FileInfoHeader n lnk of
                Inl e \<Rightarrow> (WalkErr e, tw)
              | Inr header \<Rightarrow>
                  (case Rel root path of
                     Inl e \<Rightarrow> (WalkErr e, tw)
                   | Inr relPath \<Rightarrow>
                       let header' = header\<lparr>h_Name := Join [''/func'', ToSlash relPath],
                                            h_Uid := DefaultUid, h_Gid := DefaultGid\<rparr>
                       in if \<not> IsRegular n then (WalkOk, tw @ [(header', [])])
                          else (case ReadAll n of
                                  Inl e \<Rightarrow> (WalkErr e, tw @ [(header', [])])
                                | Inr bs \<Rightarrow> (WalkOk, tw @ [(header', bs)]))))))"

text \<open>
  \<^verbatim>\<open>filepath.Walk\<close>: the entry itself first, then, for a directory the function did not
  skip, its children in directory order, each under the joined path. The first error
  ends the walk; the entries already written stay written.
\<close>

fun walk :: "string \<Rightarrow> string list \<Rightarrow> string \<Rightarrow> node \<Rightarrow> tar_entry list \<Rightarrow> error option \<times> tar_entry list"
and walk_children ::
  "string \<Rightarrow> string list \<Rightarrow> string \<Rightarrow> node list \<Rightarrow> tar_entry list \<Rightarrow> error option \<times> tar_entry list"
where
  "walk root ignored path n tw =
     (case visit root ignored path n tw of
        (WalkErr e, tw') \<Rightarrow> (Some e, tw')
      | (SkipDir, tw') \<Rightarrow> (None, tw')
      | (WalkOk, tw') \<Rightarrow>
          (case n of
             Directory _ children \<Rightarrow> walk_children root ignored path children tw'
           | _ \<Rightarrow> (None, tw')))"
| "walk_children root ignored path [] tw = (None, tw)"
| "walk_children root ignored path (c # cs) tw =
     (case walk root ignored (Join [path, fa_name (attr c)]) c tw of
        (Some e, tw') \<Rightarrow> (Some e, tw')
      | (None, tw') \<Rightarrow> walk_children root ignored path cs tw')"

text \<open>
  \<^verbatim>\<open>newDataTarball(root, target, ignored, verbose)\<close>: the walk over the project tree
  \<open>tree\<close> found at \<open>root\<close>, into an empty tar stream.
\<close>

definition newDataTarball :: "string \<Rightarrow> node \<Rightarrow> string list \<Rightarrow> error option \<times> tar_entry list" where
  "newDataTarball root tree ignored = walk root ignored root tree []"

section \<open>The certificates tarball and the executable tarball\<close>

text \<open>
  \<^verbatim>\<open>newCertsTarball(source, target, verbose)\<close>. \<open>source\<close> is what \<^verbatim>\<open>os.Stat\<close> finds at
  the source path (\<open>None\<close> when nothing is there). The same file is written under both
  certificate paths.
\<close>

definition certsPaths :: "string list" where
  "certsPaths = [''/etc/ssl/certs/ca-certificates.crt'', ''/etc/pki/tls/certs/ca-certificates.crt'']"

fun certs_entries :: "node \<Rightarrow> string list \<Rightarrow> tar_entry list \<Rightarrow> error option \<times> tar_entry list" where
  "certs_entries fi [] tw = (None, tw)"
| "certs_entries fi (path # paths) tw =
     (case FileInfoHeader fi [] of
        Inl e \<Rightarrow> (Some e, tw)
      | Inr header \<Rightarrow>
          let header' = header\<lparr>h_Name := path, h_Uid := DefaultUid, h_Gid := DefaultGid\<rparr> in
          (case ReadAll fi of
             Inl e \<Rightarrow> (Some e, tw @ [(header', [])])
           | Inr bs \<Rightarrow> certs_entries fi paths (tw @ [(header', bs)])))"

definition newCertsTarball :: "node option \<Rightarrow> error option \<times> tar_entry list" where
  "newCertsTarball source =
     (case source of
        None \<Rightarrow> (Some (ErrNotExist ''ca-certificates.crt''), [])
      | Some fi \<Rightarrow> certs_entries fi certsPaths [])"

text \<open>
  \<^verbatim>\<open>goExeTarball(source, target, verbose)\<close> of the Go plugin: one entry \<open>/func/f\<close> for
  the compiled binary, its permission bits (\<^verbatim>\<open>fs.ModePerm\<close>, octal 777) replaced by
  octal 755.
\<close>

definition ModePerm :: int where "ModePerm = 511"

definition goExeTarball :: "node option \<Rightarrow> error option \<times> tar_entry list" where
  "goExeTarball source =
     (case source of
        None \<Rightarrow> (Some (ErrNotExist ''result/f''), [])
      | Some info \<Rightarrow>
          (case FileInfoHeader info (fa_name (attr info)) of
             Inl e \<Rightarrow> (Some e, [])
           | Inr header \<Rightarrow>
               let header' = header\<lparr>h_Mode := or (and (h_Mode header) (not ModePerm)) 493,
                                    h_Name := Join [''/func'', ''f'']\<rparr> in
               (case ReadAll info of
                  Inl e \<Rightarrow> (Some e, [(header', [])])
                | Inr bs \<Rightarrow> (None, [(header', bs)]))))"

section \<open>The entries a walk reaches\<close>

text \<open>
  \<open>reach\<close> lists, in walk order, the entries of the tree that are not ignored and do not
  lie under an ignored directory, each with the path the walk calls it by.
  \<open>visit_all\<close> visits such a list in order and stops at the first error. The walk is
  \<open>visit_all\<close> over \<open>reach\<close>.
\<close>

fun reach :: "string list \<Rightarrow> string \<Rightarrow> node \<Rightarrow> (string \<times> node) list"
and reach_children :: "string list \<Rightarrow> string \<Rightarrow> node list \<Rightarrow> (string \<times> node) list"
where
  "reach ignored path n =
     (if fa_name (attr n) \<in> set ignored then []
      else (path, n) #
        (case n of Directory _ children \<Rightarrow> reach_children ignored path children | _ \<Rightarrow> []))"
| "reach_children ignored path [] = []"
| "reach_children ignored path (c # cs) =
     reach ignored (Join [path, fa_name (attr c)]) c @ reach_children ignored path cs"

fun visit_all ::
  "string \<Rightarrow> string list \<Rightarrow> (string \<times> node) list \<Rightarrow> tar_entry list \<Rightarrow> error option \<times> tar_entry list"
where
  "visit_all root ignored [] tw = (None, tw)"
| "visit_all root ignored ((p, n) # es) tw =
     (case visit root ignored p n tw of
        (WalkErr e, tw') \<Rightarrow> (Some e, tw')
      | (_, tw') \<Rightarrow> visit_all root ignored es tw')"

section \<open>strconv\<close>

text \<open>\<^verbatim>\<open>strconv.Itoa\<close>: the decimal digits of an integer, with a minus sign when negative.\<close>

definition digit_char :: "nat \<Rightarrow> char" where
  "digit_char d =
     (if d = 0 then CHR ''0'' else if d = 1 then CHR ''1'' else if d = 2 then CHR ''2''
      else if d = 3 then CHR ''3'' else if d = 4 then CHR ''4'' else if d = 5 then CHR ''5''
      else if d = 6 then CHR ''6'' else if d = 7 then CHR ''7'' else if d = 8 then CHR ''8''
      else CHR ''9'')"

fun itoa_nat :: "nat \<Rightarrow> string" where
  "itoa_nat n = (if n < 10 then [digit_char n] else itoa_nat (n div 10) @ [digit_char (n mod 10)])"

declare itoa_nat.simps [simp del]

definition Itoa :: "int \<Rightarrow> string" where
  "Itoa i = (if i < 0 then CHR ''-'' # itoa_nat (nat (- i)) else itoa_nat (nat i))"

text \<open>
  \<^verbatim>\<open>strconv.Atoi\<close> on a 64-bit host: an optional sign, then one or more decimal digits,
  and a value that fits a signed 64-bit integer; anything else is an error.
\<close>

definition digit_val :: "char \<Rightarrow> nat option" where
  "digit_val c = (let n = (of_char c :: nat) in if 48 \<le> n \<and> n \<le> 57 then Some (n - 48) else None)"

fun parse_digits :: "nat \<Rightarrow> string \<Rightarrow> nat option" where
  "parse_digits acc [] = Some acc"
| "parse_digits acc (c # cs) =
     (case digit_val c of None \<Rightarrow> None | Some d \<Rightarrow> parse_digits (acc * 10 + d) cs)"

definition Atoi :: "string \<Rightarrow> int option" where
  "Atoi s =
     (let (neg, ds) =
            (case s of
               [] \<Rightarrow> (False, s)
             | c # cs \<Rightarrow> if c = CHR ''-'' then (True, cs)
                         else if c = CHR ''+'' then (False, cs) else (False, s))
      in if ds = [] then None
         else (case parse_digits 0 ds of
                 None \<Rightarrow> None
               | Some n \<Rightarrow>
                   let v = (if neg then - int n else int n) in
                   if - (2 ^ 63) \<le> v \<and> v < 2 ^ 63 then Some v else None))"

section \<open>Images: the types of go-containerregistry the builder fills in\<close>

type_synonym time = nat

record Platform =
  p_OS :: string
  p_Architecture :: string
  p_Variant :: string
  p_OSVersion :: string

record Hash =
  hash_Algorithm :: string
  hash_Hex :: string

record Descriptor =
  d_MediaType :: string
  d_Size :: nat
  d_Digest :: Hash
  d_Platform :: "Platform option"

text \<open>
  \<^verbatim>\<open>v1.Layer\<close> is an interface; each of its methods can fail. \<open>l_Compressed\<close> is
  the stream of the compressed bytes: the bytes it delivers, and the error that ends it
  early, if any.
\<close>

record Layer =
  l_Digest :: "error + Hash"
  l_DiffID :: "error + Hash"
  l_Compressed :: "error + bytes \<times> error option"
  l_Size :: "error + nat"

record imageLayer =
  il_Descriptor :: Descriptor
  il_Layer :: Layer

record History =
  hi_Author :: string
  hi_Created :: time
  hi_Comment :: string
  hi_EmptyLayer :: bool

record Config =
  c_Env :: "string list"
  c_Volumes :: "string set"
  c_ExposedPorts :: "string set"
  c_WorkingDir :: string
  c_StopSignal :: string
  c_User :: string
  c_Cmd :: "string list"

record ConfigFile =
  cf_Created :: time
  cf_Architecture :: string
  cf_OS :: string
  cf_OSVersion :: string
  cf_Variant :: string
  cf_Config :: Config
  cf_History :: "History list"
  cf_RootFS_Type :: string
  cf_RootFS_DiffIDs :: "Hash list"

record Manifest =
  m_SchemaVersion :: nat
  m_MediaType :: string
  m_Config :: Descriptor
  m_Layers :: "Descriptor list"

record IndexManifest =
  ix_SchemaVersion :: nat
  ix_MediaType :: string
  ix_Manifests :: "Descriptor list"

text \<open>\<^verbatim>\<open>v1.Image\<close>, the interface of a pulled base image.\<close>

record Image =
  img_ConfigFile :: "error + ConfigFile"
  img_Manifest :: "error + Manifest"
  img_Layers :: "error + Layer list"

datatype json_doc = ConfigDoc ConfigFile | ManifestDoc Manifest | IndexDoc IndexManifest

definition OCILayer :: string where
  "OCILayer = ''application/vnd.oci.image.layer.v1.tar+gzip''"
definition OCIConfigJSON :: string where
  "OCIConfigJSON = ''application/vnd.oci.image.config.v1+json''"
definition OCIManifestSchema1 :: string where
  "OCIManifestSchema1 = ''application/vnd.oci.image.manifest.v1+json''"
definition OCIImageIndex :: string where
  "OCIImageIndex = ''application/vnd.oci.image.index.v1+json''"

section \<open>The function, the build job and the world around a build\<close>

text \<open>
  Of \<^verbatim>\<open>fn.Function\<close> the builder reads the root, the runtime, the base image, the
  environment (\<open>f_Envs\<close> is the value of \<^verbatim>\<open>Run.Envs.Slice()\<close>) and the volume paths
  (a nil path is \<open>None\<close>).
\<close>

record Function =
  f_Root :: string
  f_Runtime :: string
  f_BaseImage :: string
  f_Envs :: "string list"
  f_Volumes :: "string option list"

text \<open>
  \<^verbatim>\<open>buildJob\<close>. Its field \<^verbatim>\<open>languageBuilder\<close> is passed next to the job (as \<open>lb\<close>)
  wherever the source reads \<^verbatim>\<open>job.languageBuilder\<close>, since the methods of a language
  builder take the job.
\<close>

record buildJob =
  j_start :: time
  j_hash :: string
  j_function :: Function
  j_platforms :: "Platform list"
  j_verbose :: bool

text \<open>
  Everything outside the package that a build consults: the standard library's
  encoders and hash, the operating system's process table, and the collaborators
  (fingerprint, scaffolding, git, the Go toolchain, the registry). Each is a parameter.
  \<^item> \<open>w_sha256hex\<close>: \<^verbatim>\<open>hex.EncodeToString\<close> of \<^verbatim>\<open>crypto/sha256\<close> of the bytes;
  \<^item> \<open>w_targz\<close>: the bytes of the gzip-compressed tar stream of the entries;
    \<open>w_gunzip\<close>: what a gzip reader returns for a file;
  \<^item> \<open>w_json\<close>: \<^verbatim>\<open>json.Encoder\<close> with two-space indent;
  \<^item> \<open>w_FindProcess p\<close>: \<^verbatim>\<open>os.FindProcess(p)\<close> returns no error (always so on Unix);
    \<open>w_Signal0 p\<close>: \<^verbatim>\<open>process.Signal(syscall.Signal(0))\<close> returns no error;
  \<^item> \<open>w_Lstat\<close>: the project tree found at the function's root;
  \<^item> \<open>w_scaffold\<close>: the outcome of \<^verbatim>\<open>fn.NewRepository\<close> and \<^verbatim>\<open>scaffolding.Write\<close>, and on
    success the file it leaves at \<^verbatim>\<open>ca-certificates.crt\<close> in the build directory, if any;
  \<^item> \<open>w_git_describe root\<close>: the outcome of \<^verbatim>\<open>git describe --tags\<close> run in \<open>root\<close>;
  \<^item> \<open>w_go_build\<close>: the outcome of \<^verbatim>\<open>go mod tidy\<close> and \<^verbatim>\<open>go build\<close>, and on success what
    \<^verbatim>\<open>os.Stat\<close> finds at the output path;
  \<^item> \<open>w_remote ref p\<close>: the outcome of \<^verbatim>\<open>name.ParseReference\<close>, \<^verbatim>\<open>remote.Get\<close> and
    \<^verbatim>\<open>desc.Image\<close> for the platform.
\<close>

record world =
  w_sha256hex :: "bytes \<Rightarrow> string"
  w_targz :: "tar_entry list \<Rightarrow> bytes"
  w_gunzip :: "bytes \<Rightarrow> error + bytes"
  w_json :: "json_doc \<Rightarrow> bytes"
  w_TrimSpace :: "string \<Rightarrow> string"
  w_RFC3339 :: "time \<Rightarrow> string"
  w_windows :: bool
  w_FindProcess :: "int \<Rightarrow> bool"
  w_Signal0 :: "int \<Rightarrow> bool"
  w_Getpid :: int
  w_Now :: time
  w_DefaultPlatforms :: "Platform list"
  w_Fingerprint :: "string \<Rightarrow> error + string"
  w_Lstat :: "string \<Rightarrow> error + node"
  w_scaffold :: "buildJob \<Rightarrow> error + node option"
  w_git_describe :: "string \<Rightarrow> error + string"
  w_go_build :: "buildJob \<Rightarrow> Platform \<Rightarrow> error + node option"
  w_remote :: "string \<Rightarrow> Platform \<Rightarrow> error + Image"

section \<open>The config file of an image\<close>

text \<open>\<^verbatim>\<open>newConfigEnvs(job)\<close>.\<close>

definition newConfigEnvs :: "world \<Rightarrow> buildJob \<Rightarrow> string list" where
  "newConfigEnvs w job =
     (let envs = [''FUNC_CREATED='' @ w_RFC3339 w (j_start job)];
          envs' = (case w_git_describe w (f_Root (j_function job)) of
                     Inl err \<Rightarrow> envs @ [''FUNC_VERSION='']
                   | Inr output \<Rightarrow> envs @ [''FUNC_VERSION='' @ w_TrimSpace w output])
      in envs' @ f_Envs (j_function job))"

text \<open>\<^verbatim>\<open>newConfigVolumes(job)\<close>: the paths of the volumes that have one.\<close>

fun newConfigVolumes_loop :: "string option list \<Rightarrow> string set \<Rightarrow> string set" where
  "newConfigVolumes_loop [] volumes = volumes"
| "newConfigVolumes_loop (None # vs) volumes = newConfigVolumes_loop vs volumes"
| "newConfigVolumes_loop (Some path # vs) volumes = newConfigVolumes_loop vs (insert path volumes)"

definition newConfigVolumes :: "buildJob \<Rightarrow> string set" where
  "newConfigVolumes job = newConfigVolumes_loop (f_Volumes (j_function job)) {}"

text \<open>The loop of \<^verbatim>\<open>newConfigFile\<close> that appends the DiffID of every layer.\<close>

fun populateDiffIDs :: "imageLayer list \<Rightarrow> Hash list \<Rightarrow> error + Hash list" where
  "populateDiffIDs [] acc = Inr acc"
| "populateDiffIDs (imageLayer # rest) acc =
     (case l_DiffID (il_Layer imageLayer) of
        Inl err \<Rightarrow> Inl err
      | Inr diffID \<Rightarrow> populateDiffIDs rest (acc @ [diffID]))"

text \<open>\<^verbatim>\<open>newConfigFile(job, p, base, imageLayers)\<close>; \<open>base\<close> is \<open>None\<close> for a nil image.\<close>

definition newConfigFile ::
  "world \<Rightarrow> buildJob \<Rightarrow> Platform \<Rightarrow> Image option \<Rightarrow> imageLayer list \<Rightarrow> error + ConfigFile"
where
  "newConfigFile w job p base imageLayers =
     (let cfg = \<lparr>cf_Created = j_start job,
                 cf_Architecture = p_Architecture p,
                 cf_OS = p_OS p,
                 cf_OSVersion = p_OSVersion p,
                 cf_Variant = p_Variant p,
                 cf_Config = \<lparr>c_Env = newConfigEnvs w job,
                              c_Volumes = newConfigVolumes job,
                              c_ExposedPorts = {''8080/tcp''},
                              c_WorkingDir = ''/func/'',
                              c_StopSignal = ''SIGKILL'',
                              c_User = Itoa DefaultUid @ '':'' @ Itoa DefaultGid,
                              c_Cmd = []\<rparr>,
                 cf_History = [\<lparr>hi_Author = ''func'', hi_Created = j_start job,
                                 hi_Comment = ''func host builder'', hi_EmptyLayer = True\<rparr>],
                 cf_RootFS_Type = ''layers'',
                 cf_RootFS_DiffIDs = []\<rparr>
      in case populateDiffIDs imageLayers (cf_RootFS_DiffIDs cfg) of
           Inl err \<Rightarrow> Inl err
         | Inr diffIDs \<Rightarrow>
             let cfg1 = cfg\<lparr>cf_RootFS_DiffIDs := diffIDs\<rparr> in
             (case base of
                None \<Rightarrow> Inr cfg1
              | Some baseImage \<Rightarrow>
                  (case img_ConfigFile baseImage of
                     Inl err \<Rightarrow> Inl err
                   | Inr baseCfg \<Rightarrow>
                       let cfg2 = (if c_User (cf_Config baseCfg) \<noteq> []
                                   then cfg1\<lparr>cf_Config := (cf_Config cfg1)\<lparr>c_User := c_User (cf_Config baseCfg)\<rparr>\<rparr>
                                   else cfg1);
                           cfg3 = cfg2\<lparr>cf_Config := (cf_Config cfg2)
                                    \<lparr>c_Env := c_Env (cf_Config baseCfg) @ c_Env (cf_Config cfg2)\<rparr>\<rparr>;
                           cfg4 = cfg3\<lparr>cf_History := cf_History baseCfg @ cf_History cfg3\<rparr>;
                           cfg5 = cfg4\<lparr>cf_RootFS_DiffIDs :=
                                         cf_RootFS_DiffIDs baseCfg @ cf_RootFS_DiffIDs cfg4\<rparr>
                       in Inr cfg5)))"

section \<open>Language builders\<close>

text \<open>
  What a build reads and writes while it containerizes: the build directory of the job
  and the blob cache of the project.
\<close>

record buildfs =
  fs_blobs :: "string \<rightharpoonup> bytes"    \<comment> \<open>\<^verbatim>\<open>oci/blobs/sha256/<hex>\<close>\<close>
  fs_cache :: "string \<rightharpoonup> bytes"    \<comment> \<open>\<^verbatim>\<open>blob-cache/<hex>\<close>, shared by all builds of the project\<close>
  fs_certs :: "node option"          \<comment> \<open>\<^verbatim>\<open>ca-certificates.crt\<close>\<close>
  fs_layout :: "bytes option"        \<comment> \<open>\<^verbatim>\<open>oci/oci-layout\<close>\<close>
  fs_index :: "bytes option"         \<comment> \<open>\<^verbatim>\<open>oci/index.json\<close>\<close>

text \<open>The interface \<^verbatim>\<open>languageBuilder\<close>. The layer writers change the build directory.\<close>

record languageBuilder =
  lb_Base :: "string \<Rightarrow> string"
  lb_WriteShared :: "buildJob \<Rightarrow> buildfs \<Rightarrow> (error + imageLayer list) \<times> buildfs"
  lb_WritePlatform :: "buildJob \<Rightarrow> Platform \<Rightarrow> buildfs \<Rightarrow> (error + imageLayer list) \<times> buildfs"
  lb_Configure :: "buildJob \<Rightarrow> Platform \<Rightarrow> ConfigFile \<Rightarrow> error + ConfigFile"

text \<open>
  \<^verbatim>\<open>tarball.LayerFromFile\<close> on a file with the given bytes: the digest is that of the
  file, the DiffID that of its uncompressed content.
\<close>

definition sha256 :: "world \<Rightarrow> bytes \<Rightarrow> Hash" where
  "sha256 w bs = \<lparr>hash_Algorithm = ''sha256'', hash_Hex = w_sha256hex w bs\<rparr>"

definition LayerFromFile :: "world \<Rightarrow> bytes \<Rightarrow> Layer" where
  "LayerFromFile w file =
     \<lparr>l_Digest = Inr (sha256 w file),
      l_DiffID = (case w_gunzip w file of Inl err \<Rightarrow> Inl err | Inr tar \<Rightarrow> Inr (sha256 w tar)),
      l_Compressed = Inr (file, None),
      l_Size = Inr (length file)\<rparr>"

text \<open>\<^verbatim>\<open>newDescriptor(layer)\<close>.\<close>

definition newDescriptor :: "Layer \<Rightarrow> error + Descriptor" where
  "newDescriptor layer =
     (case l_Size layer of
        Inl err \<Rightarrow> Inl err
      | Inr sz \<Rightarrow>
          (case l_Digest layer of
             Inl err \<Rightarrow> Inl err
           | Inr digest \<Rightarrow>
               Inr \<lparr>d_MediaType = OCILayer, d_Size = sz, d_Digest = digest, d_Platform = None\<rparr>))"

text \<open>
  The tail shared by \<^verbatim>\<open>writeDataLayer\<close>, \<^verbatim>\<open>writeCertsLayer\<close> and \<^verbatim>\<open>WritePlatform\<close>: the
  tarball file becomes a layer, is described, and is renamed to the blob named by the
  hex of its digest.
\<close>

definition tarballToBlob ::
  "world \<Rightarrow> bytes \<Rightarrow> buildfs \<Rightarrow> (error + imageLayer) \<times> buildfs"
where
  "tarballToBlob w target fs =
     (let layer = LayerFromFile w target in
      case newDescriptor layer of
        Inl err \<Rightarrow> (Inl err, fs)
      | Inr desc \<Rightarrow>
          (Inr \<lparr>il_Descriptor = desc, il_Layer = layer\<rparr>,
           fs\<lparr>fs_blobs := (fs_blobs fs)(hash_Hex (d_Digest desc) \<mapsto> target)\<rparr>))"

text \<open>The Go builder (\<^verbatim>\<open>go_builder.go\<close>).\<close>

definition goBuilder_Configure :: "buildJob \<Rightarrow> Platform \<Rightarrow> ConfigFile \<Rightarrow> error + ConfigFile" where
  "goBuilder_Configure job p cf =
     Inr (cf\<lparr>cf_Config := (cf_Config cf)\<lparr>c_Cmd := [''/func/f''],
                                          c_Env := c_Env (cf_Config cf) @ [''LISTEN_ADDRESS=[::]:8080'']\<rparr>\<rparr>)"

definition goBuilder_WritePlatform ::
  "world \<Rightarrow> buildJob \<Rightarrow> Platform \<Rightarrow> buildfs \<Rightarrow> (error + imageLayer list) \<times> buildfs"
where
  "goBuilder_WritePlatform w cfg p fs =
     (case w_go_build w cfg p of
        Inl err \<Rightarrow> (Inl err, fs)
      | Inr exe \<Rightarrow>
          (case goExeTarball exe of
             (Some err, _) \<Rightarrow> (Inl err, fs)
           | (None, entries) \<Rightarrow>
               (case tarballToBlob w (w_targz w entries) fs of
                  (Inl err, fs') \<Rightarrow> (Inl err, fs')
                | (Inr il, fs') \<Rightarrow>
                    (Inr [il\<lparr>il_Descriptor := (il_Descriptor il)\<lparr>d_Platform := Some p\<rparr>\<rparr>], fs'))))"

definition goBuilder :: "world \<Rightarrow> languageBuilder" where
  "goBuilder w =
     \<lparr>lb_Base = (\<lambda>customImage. customImage),
      lb_WriteShared = (\<lambda>job fs. (Inr [], fs)),
      lb_WritePlatform = goBuilder_WritePlatform w,
      lb_Configure = goBuilder_Configure\<rparr>"

text \<open>
  \<^verbatim>\<open>builders\<close>, the registry of language builders. \<^verbatim>\<open>pythonBuilder\<close> is not among the
  sources; it is the parameter \<open>py\<close>.
\<close>

definition builders :: "world \<Rightarrow> languageBuilder \<Rightarrow> string \<Rightarrow> languageBuilder option" where
  "builders w py runtime =
     (if runtime = ''go'' then Some (goBuilder w)
      else if runtime = ''python'' then Some py
      else None)"

section \<open>Containerize\<close>

text \<open>
  File-system calls on paths the builder itself prepared (creating, renaming and writing
  the files of the build directory) are taken to succeed; calls whose outcome depends on
  what is there (\<^verbatim>\<open>os.Stat\<close>, \<^verbatim>\<open>os.Symlink\<close>, \<^verbatim>\<open>os.Link\<close>) fail as the file system
  says.
\<close>

text \<open>\<^verbatim>\<open>writeDataLayer(job)\<close>.\<close>

definition writeDataLayer :: "world \<Rightarrow> buildJob \<Rightarrow> buildfs \<Rightarrow> (error + imageLayer) \<times> buildfs" where
  "writeDataLayer w job fs =
     (let source = f_Root (j_function job) in
      case w_Lstat w source of
        Inl err \<Rightarrow> (Inl err, fs)
      | Inr tree \<Rightarrow>
          (case newDataTarball source tree defaultIgnored of
             (Some err, _) \<Rightarrow> (Inl err, fs)
           | (None, entries) \<Rightarrow> tarballToBlob w (w_targz w entries) fs))"

text \<open>\<^verbatim>\<open>writeCertsLayer(job)\<close>.\<close>

definition writeCertsLayer :: "world \<Rightarrow> buildJob \<Rightarrow> buildfs \<Rightarrow> (error + imageLayer) \<times> buildfs" where
  "writeCertsLayer w job fs =
     (case newCertsTarball (fs_certs fs) of
        (Some err, _) \<Rightarrow> (Inl err, fs)
      | (None, entries) \<Rightarrow> tarballToBlob w (w_targz w entries) fs)"

text \<open>
  \<^verbatim>\<open>ensureCached(job, layer)\<close>: a cache file that exists is used as it is; otherwise
  the compressed stream is copied into a new cache file, which keeps what was copied
  when the stream breaks.
\<close>

definition ensureCached :: "Layer \<Rightarrow> buildfs \<Rightarrow> error option \<times> buildfs" where
  "ensureCached layer fs =
     (case l_Digest layer of
        Inl err \<Rightarrow> (Some err, fs)
      | Inr digest \<Rightarrow>
          if fs_cache fs (hash_Hex digest) \<noteq> None then (None, fs)
          else
            (case l_Compressed layer of
               Inl err \<Rightarrow> (Some err, fs)
             | Inr (copied, err) \<Rightarrow>
                 (err, fs\<lparr>fs_cache := (fs_cache fs)(hash_Hex digest \<mapsto> copied)\<rparr>)))"

text \<open>\<^verbatim>\<open>writeBaseLayer(job, layer)\<close>: the cached file is hard-linked into the blobs.\<close>

definition writeBaseLayer :: "Layer \<Rightarrow> buildfs \<Rightarrow> error option \<times> buildfs" where
  "writeBaseLayer layer fs =
     (case ensureCached layer fs of
        (Some err, fs') \<Rightarrow> (Some err, fs')
      | (None, fs') \<Rightarrow>
          (case l_Digest layer of
             Inl err \<Rightarrow> (Some err, fs')
           | Inr digest \<Rightarrow>
               if fs_blobs fs' (hash_Hex digest) \<noteq> None then (None, fs')
               else
                 (case fs_cache fs' (hash_Hex digest) of
                    None \<Rightarrow> (Some (ErrNotExist (hash_Hex digest)), fs')
                  | Some file \<Rightarrow>
                      (None, fs'\<lparr>fs_blobs := (fs_blobs fs')(hash_Hex digest \<mapsto> file)\<rparr>))))"

fun writeBaseLayers :: "Layer list \<Rightarrow> buildfs \<Rightarrow> error option \<times> buildfs" where
  "writeBaseLayers [] fs = (None, fs)"
| "writeBaseLayers (layer # layers) fs =
     (case writeBaseLayer layer fs of
        (Some err, fs') \<Rightarrow> (Some err, fs')
      | (None, fs') \<Rightarrow> writeBaseLayers layers fs')"

text \<open>\<^verbatim>\<open>pullBase(job, p)\<close>: \<open>None\<close> is the nil image of a build from scratch.\<close>

definition pullBase ::
  "world \<Rightarrow> languageBuilder \<Rightarrow> buildJob \<Rightarrow> Platform \<Rightarrow> buildfs \<Rightarrow> (error + Image option) \<times> buildfs"
where
  "pullBase w lb job p fs =
     (let baseImage = f_BaseImage (j_function job) in
      if lb_Base lb baseImage = [] then (Inr None, fs)
      else
        (case w_remote w (lb_Base lb baseImage) p of
           Inl err \<Rightarrow> (Inl err, fs)
         | Inr img \<Rightarrow>
             (case img_Layers img of
                Inl err \<Rightarrow> (Inl err, fs)
              | Inr layers \<Rightarrow>
                  (case writeBaseLayers layers fs of
                     (Some err, fs') \<Rightarrow> (Inl err, fs')
                   | (None, fs') \<Rightarrow> (Inr (Some img), fs')))))"

text \<open>
  \<^verbatim>\<open>writeAsJSONBlob(job, tempName, data)\<close>: the encoding is hashed while it is written,
  and the file is renamed to the blob named by the hex of that hash.
\<close>

definition writeAsJSONBlob :: "world \<Rightarrow> string \<Rightarrow> json_doc \<Rightarrow> buildfs \<Rightarrow> Descriptor \<times> buildfs" where
  "writeAsJSONBlob w tempName data fs =
     (let file = w_json w data;
          hash = sha256 w file
      in (\<lparr>d_MediaType = [], d_Size = length file, d_Digest = hash, d_Platform = None\<rparr>,
          fs\<lparr>fs_blobs := (fs_blobs fs)(hash_Hex hash \<mapsto> file)\<rparr>))"

definition writeConfig :: "world \<Rightarrow> ConfigFile \<Rightarrow> buildfs \<Rightarrow> Descriptor \<times> buildfs" where
  "writeConfig w configFile fs =
     (case writeAsJSONBlob w ''config.json'' (ConfigDoc configFile) fs of
        (configDesc, fs') \<Rightarrow> (configDesc\<lparr>d_MediaType := OCIConfigJSON\<rparr>, fs'))"

text \<open>\<^verbatim>\<open>writeManifest(job, p, base, configDesc, layers)\<close>.\<close>

fun appendDescriptors :: "Descriptor list \<Rightarrow> imageLayer list \<Rightarrow> Descriptor list" where
  "appendDescriptors layerDescs [] = layerDescs"
| "appendDescriptors layerDescs (layer # layers) =
     appendDescriptors (layerDescs @ [il_Descriptor layer]) layers"

definition writeManifest ::
  "world \<Rightarrow> Platform \<Rightarrow> Image option \<Rightarrow> Descriptor \<Rightarrow> imageLayer list \<Rightarrow> buildfs
     \<Rightarrow> (error + Descriptor) \<times> buildfs"
where
  "writeManifest w p base configDesc layers fs =
     (case (case base of
              None \<Rightarrow> Inr []
            | Some img \<Rightarrow>
                (case img_Manifest img of
                   Inl err \<Rightarrow> Inl err
                 | Inr baseManifest \<Rightarrow> Inr (m_Layers baseManifest))) of
        Inl err \<Rightarrow> (Inl err, fs)
      | Inr baseDescs \<Rightarrow>
          let layerDescs = appendDescriptors baseDescs layers;
              manifest = \<lparr>m_SchemaVersion = 2, m_MediaType = OCIManifestSchema1,
                          m_Config = configDesc, m_Layers = layerDescs\<rparr>
          in (case writeAsJSONBlob w
                     (''manifest.'' @ p_OS p @ ''.'' @ p_Architecture p @ ''.json'')
                     (ManifestDoc manifest) fs of
                (manifestDesc, fs') \<Rightarrow>
                  (Inr (manifestDesc\<lparr>d_MediaType := OCIManifestSchema1, d_Platform := Some p\<rparr>), fs')))"

definition writeIndex :: "world \<Rightarrow> Descriptor list \<Rightarrow> buildfs \<Rightarrow> buildfs" where
  "writeIndex w manifests fs =
     fs\<lparr>fs_index := Some (w_json w (IndexDoc \<lparr>ix_SchemaVersion = 2, ix_MediaType = OCIImageIndex,
                                               ix_Manifests = manifests\<rparr>))\<rparr>"

text \<open>The body of the loop of \<^verbatim>\<open>containerize\<close> over the platforms of the job.\<close>

definition containerizePlatform ::
  "world \<Rightarrow> languageBuilder \<Rightarrow> buildJob \<Rightarrow> imageLayer list \<Rightarrow> Platform \<Rightarrow> buildfs
     \<Rightarrow> (error + Descriptor) \<times> buildfs"
where
  "containerizePlatform w lb job sharedLayers p fs =
     (case lb_WritePlatform lb job p fs of
        (Inl err, fs1) \<Rightarrow> (Inl err, fs1)
      | (Inr platformSpecificLayers, fs1) \<Rightarrow>
          let layers = sharedLayers @ platformSpecificLayers in
          (case pullBase w lb job p fs1 of
             (Inl err, fs2) \<Rightarrow> (Inl err, fs2)
           | (Inr base, fs2) \<Rightarrow>
               (case newConfigFile w job p base layers of
                  Inl err \<Rightarrow> (Inl err, fs2)
                | Inr configFile0 \<Rightarrow>
                    (case lb_Configure lb job p configFile0 of
                       Inl err \<Rightarrow> (Inl err, fs2)
                     | Inr configFile \<Rightarrow>
                         (case writeConfig w configFile fs2 of
                            (config, fs3) \<Rightarrow> writeManifest w p base config layers fs3)))))"

fun containerizePlatforms ::
  "world \<Rightarrow> languageBuilder \<Rightarrow> buildJob \<Rightarrow> imageLayer list \<Rightarrow> Platform list \<Rightarrow> Descriptor list
     \<Rightarrow> buildfs \<Rightarrow> (error + Descriptor list) \<times> buildfs"
where
  "containerizePlatforms w lb job sharedLayers [] manifests fs = (Inr manifests, fs)"
| "containerizePlatforms w lb job sharedLayers (p # ps) manifests fs =
     (case containerizePlatform w lb job sharedLayers p fs of
        (Inl err, fs') \<Rightarrow> (Inl err, fs')
      | (Inr manifest, fs') \<Rightarrow>
          containerizePlatforms w lb job sharedLayers ps (manifests @ [manifest]) fs')"

definition ociLayout :: bytes where
  "ociLayout = ''{ '' @ [CHR 0x22] @ ''imageLayoutVersion'' @ [CHR 0x22] @ '': '' @
               [CHR 0x22] @ ''1.0.0'' @ [CHR 0x22] @ '' }''"

text \<open>\<^verbatim>\<open>containerize(job)\<close>.\<close>

definition containerize ::
  "world \<Rightarrow> languageBuilder \<Rightarrow> buildJob \<Rightarrow> buildfs \<Rightarrow> error option \<times> buildfs"
where
  "containerize w lb job fs =
     (let fs0 = fs\<lparr>fs_layout := Some ociLayout\<rparr> in
      case writeDataLayer w job fs0 of
        (Inl err, fs1) \<Rightarrow> (Some err, fs1)
      | (Inr data, fs1) \<Rightarrow>
          (case writeCertsLayer w job fs1 of
             (Inl err, fs2) \<Rightarrow> (Some err, fs2)
           | (Inr certs, fs2) \<Rightarrow>
               (case lb_WriteShared lb job fs2 of
                  (Inl err, fs3) \<Rightarrow> (Some err, fs3)
                | (Inr shared, fs3) \<Rightarrow>
                    let sharedLayers = [data, certs] @ shared in
                    (case containerizePlatforms w lb job sharedLayers (j_platforms job) [] fs3 of
                       (Inl err, fs4) \<Rightarrow> (Some err, fs4)
                     | (Inr manifests, fs4) \<Rightarrow> (None, writeIndex w manifests fs4)))))"

section \<open>The workspace of a project and the build job coordinator\<close>

text \<open>
  The run-data directory of a project, as far as the builder creates it:
  \<^item> \<open>ws_by_hash\<close>: the directories \<^verbatim>\<open>builds/by-hash/<name>\<close>, in directory order;
  \<^item> \<open>ws_by_pid\<close>: the links \<^verbatim>\<open>builds/by-pid/<name>\<close>, each with the name \<open>h\<close> of the
    directory its target \<^verbatim>\<open>../by-hash/<h>\<close> names;
  \<^item> \<open>ws_last\<close>: the link \<^verbatim>\<open>builds/last\<close>, with the name \<open>h\<close> of its target
    \<^verbatim>\<open>by-hash/<h>\<close>;
  \<^item> \<open>ws_cache\<close>: the files of \<^verbatim>\<open>blob-cache\<close>.
\<close>

record builddir =
  bd_blobs :: "string \<rightharpoonup> bytes"
  bd_certs :: "node option"
  bd_layout :: "bytes option"
  bd_index :: "bytes option"

record workspace =
  ws_by_hash :: "(string \<times> builddir) list"
  ws_by_pid :: "(string \<times> string) list"
  ws_last :: "string option"
  ws_cache :: "string \<rightharpoonup> bytes"

definition emptyDir :: builddir where
  "emptyDir = \<lparr>bd_blobs = Map.empty, bd_certs = None, bd_layout = None, bd_index = None\<rparr>"

definition ReadDir :: "(string \<times> 'a) list \<Rightarrow> string list" where
  "ReadDir entries = map fst entries"

definition RemoveAll :: "string \<Rightarrow> (string \<times> 'a) list \<Rightarrow> (string \<times> 'a) list" where
  "RemoveAll entry entries = filter (\<lambda>e. fst e \<noteq> entry) entries"

text \<open>The accessors of \<^verbatim>\<open>buildJob\<close> that name paths; \<^verbatim>\<open>fn.RunDataDir\<close> is \<open>.func\<close>.\<close>

definition RunDataDir :: string where "RunDataDir = ''.func''"

definition lastLink :: "buildJob \<Rightarrow> string" where
  "lastLink j = Join [f_Root (j_function j), RunDataDir, ''builds'', ''last'']"

definition pidLink :: "world \<Rightarrow> buildJob \<Rightarrow> string" where
  "pidLink w j = Join [f_Root (j_function j), RunDataDir, ''builds'', ''by-pid'', Itoa (w_Getpid w)]"

definition buildDir :: "buildJob \<Rightarrow> string" where
  "buildDir j = Join [f_Root (j_function j), RunDataDir, ''builds'', ''by-hash'', j_hash j]"

text \<open>
  The three kinds of path that \<^verbatim>\<open>isLinkTo\<close> is called with. \<^verbatim>\<open>filepath.EvalSymlinks\<close>
  (followed by \<^verbatim>\<open>filepath.Abs\<close>) fails on a path that does not exist and on a link whose
  target does not exist; otherwise it is the one canonical path of a build directory,
  which its name stands for.
\<close>

datatype wpath = LastLink | PidLink string | BuildDir string

definition existingDir :: "workspace \<Rightarrow> string \<Rightarrow> string option" where
  "existingDir ws h = (if h \<in> set (ReadDir (ws_by_hash ws)) then Some h else None)"

fun EvalSymlinks :: "workspace \<Rightarrow> wpath \<Rightarrow> string option" where
  "EvalSymlinks ws (BuildDir h) = existingDir ws h"
| "EvalSymlinks ws (PidLink n) =
     (case map_of (ws_by_pid ws) n of None \<Rightarrow> None | Some h \<Rightarrow> existingDir ws h)"
| "EvalSymlinks ws LastLink =
     (case ws_last ws of None \<Rightarrow> None | Some h \<Rightarrow> existingDir ws h)"

definition isLinkTo :: "workspace \<Rightarrow> wpath \<Rightarrow> wpath \<Rightarrow> bool" where
  "isLinkTo ws link target =
     (case EvalSymlinks ws link of
        None \<Rightarrow> False
      | Some link' \<Rightarrow>
          (case EvalSymlinks ws target of
             None \<Rightarrow> False
           | Some target' \<Rightarrow> link' = target'))"

text \<open>\<^verbatim>\<open>processExists(pid)\<close>.\<close>

definition processExists :: "world \<Rightarrow> string \<Rightarrow> bool" where
  "processExists w pid =
     (case Atoi pid of
        None \<Rightarrow> False
      | Some p \<Rightarrow>
          if \<not> w_FindProcess w p then False
          else if w_windows w then True
          else w_Signal0 w p)"

text \<open>\<^verbatim>\<open>buildJob.isActive()\<close>.\<close>

fun isActive_loop :: "world \<Rightarrow> buildJob \<Rightarrow> workspace \<Rightarrow> string list \<Rightarrow> bool" where
  "isActive_loop w j ws [] = False"
| "isActive_loop w j ws (d # dd) =
     (if processExists w d \<and> isLinkTo ws (PidLink d) (BuildDir (j_hash j)) then True
      else isActive_loop w j ws dd)"

definition isActive :: "world \<Rightarrow> buildJob \<Rightarrow> workspace \<Rightarrow> bool" where
  "isActive w j ws = isActive_loop w j ws (ReadDir (ws_by_pid ws))"

text \<open>\<^verbatim>\<open>setup(job)\<close> (the name \<open>setup\<close> is taken in Isabelle).\<close>

definition setup_job :: "world \<Rightarrow> buildJob \<Rightarrow> workspace \<Rightarrow> error option \<times> workspace" where
  "setup_job w job ws =
     (if isActive w job ws then (Some (ErrBuildInProgress (buildDir job)), ws)
      else
        let ws1 = (if j_hash job \<in> set (ReadDir (ws_by_hash ws))
                   then ws\<lparr>ws_by_hash := RemoveAll (j_hash job) (ws_by_hash ws)\<rparr>
                   else ws);
            ws2 = ws1\<lparr>ws_by_hash := ws_by_hash ws1 @ [(j_hash job, emptyDir)]\<rparr>;
            pid = Itoa (w_Getpid w)
        in if map_of (ws_by_pid ws2) pid \<noteq> None then (Some (ErrExist (pidLink w job)), ws2)
           else (None, ws2\<lparr>ws_by_pid := ws_by_pid ws2 @ [(pid, j_hash job)]\<rparr>))"

text \<open>\<^verbatim>\<open>cleanup(job)\<close>: its two loops, each over the directory as read before the loop.\<close>

fun cleanup_pids :: "world \<Rightarrow> string list \<Rightarrow> workspace \<Rightarrow> workspace" where
  "cleanup_pids w [] ws = ws"
| "cleanup_pids w (d # dd) ws =
     (if processExists w d then cleanup_pids w dd ws
      else cleanup_pids w dd (ws\<lparr>ws_by_pid := RemoveAll d (ws_by_pid ws)\<rparr>))"

fun cleanup_builds :: "world \<Rightarrow> buildJob \<Rightarrow> string list \<Rightarrow> workspace \<Rightarrow> workspace" where
  "cleanup_builds w job [] ws = ws"
| "cleanup_builds w job (d # dd) ws =
     (if isLinkTo ws LastLink (BuildDir d) then cleanup_builds w job dd ws
      else if isActive w job ws then cleanup_builds w job dd ws
      else cleanup_builds w job dd (ws\<lparr>ws_by_hash := RemoveAll d (ws_by_hash ws)\<rparr>))"

definition cleanup :: "world \<Rightarrow> buildJob \<Rightarrow> workspace \<Rightarrow> workspace" where
  "cleanup w job ws =
     (let ws1 = cleanup_pids w (ReadDir (ws_by_pid ws)) ws
      in cleanup_builds w job (ReadDir (ws_by_hash ws1)) ws1)"

text \<open>
  \<^verbatim>\<open>scaffold(job)\<close>: the collaborator writes into the build directory of the job.
\<close>

definition scaffold :: "world \<Rightarrow> buildJob \<Rightarrow> workspace \<Rightarrow> error option \<times> workspace" where
  "scaffold w job ws =
     (case w_scaffold w job of
        Inl err \<Rightarrow> (Some err, ws)
      | Inr certs \<Rightarrow>
          (None, ws\<lparr>ws_by_hash :=
                      map (\<lambda>(h, d). if h = j_hash job then (h, d\<lparr>bd_certs := certs\<rparr>) else (h, d))
                          (ws_by_hash ws)\<rparr>))"

text \<open>
  \<^verbatim>\<open>containerize(job)\<close> in the workspace: on the build directory of the job and the blob
  cache.
\<close>

definition containerizeJob ::
  "world \<Rightarrow> languageBuilder \<Rightarrow> buildJob \<Rightarrow> workspace \<Rightarrow> error option \<times> workspace"
where
  "containerizeJob w lb job ws =
     (case map_of (ws_by_hash ws) (j_hash job) of
        None \<Rightarrow> (Some (ErrNotExist (buildDir job)), ws)
      | Some d \<Rightarrow>
          (case containerize w lb job
                  \<lparr>fs_blobs = bd_blobs d, fs_cache = ws_cache ws, fs_certs = bd_certs d,
                   fs_layout = bd_layout d, fs_index = bd_index d\<rparr> of
             (r, fs) \<Rightarrow>
               (r, ws\<lparr>ws_by_hash :=
                        map (\<lambda>(h, d). if h = j_hash job
                                       then (h, \<lparr>bd_blobs = fs_blobs fs, bd_certs = fs_certs fs,
                                                 bd_layout = fs_layout fs, bd_index = fs_index fs\<rparr>)
                                       else (h, d))
                            (ws_by_hash ws),
                      ws_cache := fs_cache fs\<rparr>)))"

text \<open>\<^verbatim>\<open>updateLastLink(job)\<close>: the prior link is removed before the new one is made.\<close>

definition updateLastLink :: "buildJob \<Rightarrow> workspace \<Rightarrow> error option \<times> workspace" where
  "updateLastLink job ws =
     (let ws1 = ws\<lparr>ws_last := None\<rparr> in
      case Rel (Dir (lastLink job)) (buildDir job) of
        Inl err \<Rightarrow> (Some err, ws1)
      | Inr rp \<Rightarrow> (None, ws1\<lparr>ws_last := Some (j_hash job)\<rparr>))"

text \<open>\<^verbatim>\<open>toPlatforms\<close> and \<^verbatim>\<open>newBuildJob\<close>; the language builder is returned next to the job.\<close>

definition toPlatforms :: "Platform list \<Rightarrow> Platform list" where
  "toPlatforms pp =
     map (\<lambda>p. \<lparr>p_OS = p_OS p, p_Architecture = p_Architecture p, p_Variant = p_Variant p,
               p_OSVersion = []\<rparr>) pp"

definition newBuildJob ::
  "world \<Rightarrow> languageBuilder \<Rightarrow> Function \<Rightarrow> Platform list \<Rightarrow> bool \<Rightarrow> error + buildJob \<times> languageBuilder"
where
  "newBuildJob w py f pp verbose =
     (let job = \<lparr>j_start = w_Now w, j_hash = [], j_function = f, j_platforms = toPlatforms pp,
                 j_verbose = verbose\<rparr>
      in case w_Fingerprint w (f_Root f) of
           Inl err \<Rightarrow> Inl ErrFingerprint
         | Inr hash \<Rightarrow>
             (case builders w py (f_Runtime f) of
                None \<Rightarrow> Inl (ErrUnsupportedRuntime (f_Runtime f))
              | Some lb \<Rightarrow> Inr (job\<lparr>j_hash := hash\<rparr>, lb)))"

text \<open>
  \<^verbatim>\<open>Builder.Build(ctx, f, pp)\<close>. \<^verbatim>\<open>defer cleanup(job)\<close> is registered once setup has
  succeeded, so cleanup runs on every return after that point. \<open>afterSetup\<close> is the
  part of \<^verbatim>\<open>Build\<close> below the \<^verbatim>\<open>defer\<close>: scaffold, containerize, update the last link.
\<close>

record Builder =
  b_verbose :: bool
  b_impl :: "languageBuilder option"

definition afterSetup ::
  "world \<Rightarrow> languageBuilder \<Rightarrow> buildJob \<Rightarrow> workspace \<Rightarrow> error option \<times> workspace"
where
  "afterSetup w lb job ws1 =
     (case scaffold w job ws1 of
        (Some err, ws2) \<Rightarrow> (Some err, ws2)
      | (None, ws2) \<Rightarrow>
          (case containerizeJob w lb job ws2 of
             (Some err, ws3) \<Rightarrow> (Some err, ws3)
           | (None, ws3) \<Rightarrow> updateLastLink job ws3))"

definition Build ::
  "world \<Rightarrow> languageBuilder \<Rightarrow> Builder \<Rightarrow> Function \<Rightarrow> Platform list \<Rightarrow> workspace
     \<Rightarrow> error option \<times> workspace"
where
  "Build w py b f pp ws =
     (let pp' = (if pp = [] then w_DefaultPlatforms w else pp) in
      case newBuildJob w py f pp' (b_verbose b) of
        Inl err \<Rightarrow> (Some err, ws)
      | Inr (job, lb0) \<Rightarrow>
          let lb = (case b_impl b of None \<Rightarrow> lb0 | Some impl \<Rightarrow> impl) in
          (case setup_job w job ws of
             (Some err, ws1) \<Rightarrow> (Some err, ws1)
           | (None, ws1) \<Rightarrow>
               (case afterSetup w lb job ws1 of
                  (r, ws4) \<Rightarrow> (r, cleanup w job ws4))))"

section \<open>Predicates and example inputs used by the properties\<close>

text \<open>Every entry of a tar stream carries the builder's default owner and group.\<close>

definition owned :: "tar_entry list \<Rightarrow> bool" where
  "owned tw = (\<forall>e \<in> set tw. h_Uid (fst e) = DefaultUid \<and> h_Gid (fst e) = DefaultGid)"


definition example_project :: "node list \<Rightarrow> node" where
  "example_project cs = Directory \<lparr>fa_name = ''proj'', fa_mode = 493, fa_uid = 501, fa_gid = 20\<rparr> cs"


text \<open>A binary compiled by a build that runs as root.\<close>

definition example_binary :: node where
  "example_binary = Regular \<lparr>fa_name = ''f.linux.amd64'', fa_mode = 448, fa_uid = 0, fa_gid = 0\<rparr> ''ELF''"

text \<open>The environment a base image brings, empty without a base.\<close>

definition baseEnv :: "Image option \<Rightarrow> string list" where
  "baseEnv base =
     (case base of
        None \<Rightarrow> []
      | Some img \<Rightarrow> (case img_ConfigFile img of Inl err \<Rightarrow> [] | Inr baseCfg \<Rightarrow> c_Env (cf_Config baseCfg)))"

text \<open>A Go function at \<open>/proj\<close>, built for one platform on a base image.\<close>

definition example_platform :: Platform where
  "example_platform = \<lparr>p_OS = ''linux'', p_Architecture = ''amd64'', p_Variant = [], p_OSVersion = []\<rparr>"

definition example_function :: Function where
  "example_function =
     \<lparr>f_Root = ''/proj'', f_Runtime = ''go'', f_BaseImage = ''debian:stable'',
      f_Envs = [''GREETING=hello''], f_Volumes = [Some ''/data'', None]\<rparr>"

definition example_job :: buildJob where
  "example_job =
     \<lparr>j_start = 0, j_hash = ''abc123'', j_function = example_function,
      j_platforms = [example_platform], j_verbose = False\<rparr>"

definition example_baseCfg :: ConfigFile where
  "example_baseCfg =
     \<lparr>cf_Created = 0, cf_Architecture = ''amd64'', cf_OS = ''linux'', cf_OSVersion = [],
      cf_Variant = [],
      cf_Config = \<lparr>c_Env = [''PATH=/usr/bin''], c_Volumes = {}, c_ExposedPorts = {},
                   c_WorkingDir = [], c_StopSignal = [], c_User = ''nobody'', c_Cmd = [''bash'']\<rparr>,
      cf_History = [\<lparr>hi_Author = ''debian'', hi_Created = 0, hi_Comment = ''base'',
                      hi_EmptyLayer = False\<rparr>],
      cf_RootFS_Type = ''layers'',
      cf_RootFS_DiffIDs = [\<lparr>hash_Algorithm = ''sha256'', hash_Hex = ''b0''\<rparr>]\<rparr>"

definition example_baseLayer :: Layer where
  "example_baseLayer =
     \<lparr>l_Digest = Inr \<lparr>hash_Algorithm = ''sha256'', hash_Hex = ''#base layer''\<rparr>,
      l_DiffID = Inr \<lparr>hash_Algorithm = ''sha256'', hash_Hex = ''b0''\<rparr>,
      l_Compressed = Inr (''base layer'', None),
      l_Size = Inr 10\<rparr>"

definition example_base :: Image where
  "example_base =
     \<lparr>img_ConfigFile = Inr example_baseCfg,
      img_Manifest = Inr \<lparr>m_SchemaVersion = 2, m_MediaType = OCIManifestSchema1,
                           m_Config = \<lparr>d_MediaType = OCIConfigJSON, d_Size = 1,
                                        d_Digest = \<lparr>hash_Algorithm = ''sha256'', hash_Hex = ''c0''\<rparr>,
                                        d_Platform = None\<rparr>,
                           m_Layers = [\<lparr>d_MediaType = OCILayer, d_Size = 10,
                                         d_Digest = \<lparr>hash_Algorithm = ''sha256'', hash_Hex = ''#base layer''\<rparr>,
                                         d_Platform = None\<rparr>]\<rparr>,
      img_Layers = Inr [example_baseLayer]\<rparr>"

text \<open>
  A world for the examples: a Unix host on which only the builder's own process 4242 is
  alive, a project with one source file, and stand-ins for the hash and the encoders
  (the stand-in for the hex of the sha256 of \<open>bs\<close> is \<open>#bs\<close>, so the digest of
  the example base layer is that of its bytes).
\<close>

definition example_tree :: node where
  "example_tree =
     example_project [Regular \<lparr>fa_name = ''f.go'', fa_mode = 420, fa_uid = 501, fa_gid = 20\<rparr> ''package f'']"

definition example_json :: "json_doc \<Rightarrow> bytes" where
  "example_json doc =
     (case doc of
        ConfigDoc c \<Rightarrow> ''config '' @ concat (map hash_Hex (cf_RootFS_DiffIDs c))
      | ManifestDoc m \<Rightarrow> ''manifest '' @ concat (map (\<lambda>d. hash_Hex (d_Digest d)) (m_Layers m))
      | IndexDoc i \<Rightarrow> ''index '' @ concat (map (\<lambda>d. hash_Hex (d_Digest d)) (ix_Manifests i)))"

definition example_world :: world where
  "example_world =
     \<lparr>w_sha256hex = (\<lambda>bs. ''#'' @ bs),
      w_targz = (\<lambda>entries. ''gz '' @ concat (map (\<lambda>e. h_Name (fst e) @ '' '') entries)),
      w_gunzip = (\<lambda>file. Inr (drop 3 file)),
      w_json = example_json,
      w_TrimSpace = (\<lambda>s. filter (\<lambda>c. c \<noteq> CHR 0x0A) s),
      w_RFC3339 = (\<lambda>t. ''1970-01-01T00:00:00Z''),
      w_windows = False,
      w_FindProcess = (\<lambda>p. True),
      w_Signal0 = (\<lambda>p. p = 4242),
      w_Getpid = 4242,
      w_Now = 0,
      w_DefaultPlatforms = [example_platform],
      w_Fingerprint = (\<lambda>root. Inr ''abc123''),
      w_Lstat = (\<lambda>root. Inr example_tree),
      w_scaffold = (\<lambda>job. Inr (Some (Regular \<lparr>fa_name = ''ca-certificates.crt'', fa_mode = 420,
                                              fa_uid = 0, fa_gid = 0\<rparr> ''CERTS''))),
      w_git_describe = (\<lambda>root. Inr (''v1.2.3'' @ [CHR 0x0A])),
      w_go_build = (\<lambda>job p. Inr (Some example_binary)),
      w_remote = (\<lambda>ref p. Inr example_base)\<rparr>"

text \<open>
  The process of world \<open>w\<close> has its liveness link in the workspace, the link names the
  build directory \<open>h\<close>, and that directory exists.
\<close>

definition holdsLink :: "world \<Rightarrow> string \<Rightarrow> workspace \<Rightarrow> bool" where
  "holdsLink w h ws =
     (map_of (ws_by_pid ws) (Itoa (w_Getpid w)) = Some h \<and> h \<in> set (ReadDir (ws_by_hash ws)))"

text \<open>Workspaces, builders and worlds for the examples.\<close>

definition example_builder :: Builder where
  "example_builder = \<lparr>b_verbose = False, b_impl = None\<rparr>"

definition example_empty :: workspace where
  "example_empty = \<lparr>ws_by_hash = [], ws_by_pid = [], ws_last = None, ws_cache = Map.empty\<rparr>"

definition example_busy :: workspace where
  "example_busy =
     \<lparr>ws_by_hash = [(''abc123'', emptyDir)], ws_by_pid = [(''4242'', ''abc123'')],
      ws_last = None, ws_cache = Map.empty\<rparr>"

definition example_stale :: workspace where
  "example_stale =
     \<lparr>ws_by_hash = [(''old'', emptyDir), (''abc123'', emptyDir)],
      ws_by_pid = [(''4242'', ''abc123'')],
      ws_last = Some ''abc123'', ws_cache = Map.empty\<rparr>"

definition example_windows :: world where
  "example_windows = example_world\<lparr>w_windows := True, w_FindProcess := (\<lambda>p. p = 4242)\<rparr>"

text \<open>The platforms and the language builder that \<^verbatim>\<open>Build\<close> settles on.\<close>

definition chosen :: "world \<Rightarrow> Platform list \<Rightarrow> Platform list" where
  "chosen w pp = (if pp = [] then w_DefaultPlatforms w else pp)"

definition override :: "Builder \<Rightarrow> languageBuilder \<Rightarrow> languageBuilder" where
  "override b lb0 = (case b_impl b of None \<Rightarrow> lb0 | Some impl \<Rightarrow> impl)"

definition example_noscaffold :: world where
  "example_noscaffold = example_world\<lparr>w_scaffold := (\<lambda>job. Inl (ErrExternal ''scaffold''))\<rparr>"

definition example_prev :: workspace where
  "example_prev =
     \<lparr>ws_by_hash = [(''old'', emptyDir)], ws_by_pid = [], ws_last = Some ''old'',
      ws_cache = Map.empty\<rparr>"

definition example_changed :: world where
  "example_changed = example_world\<lparr>w_Fingerprint := (\<lambda>root. Inr ''def456'')\<rparr>"

definition example_two :: world where
  "example_two = example_world\<lparr>w_Signal0 := (\<lambda>p. p = 4242 \<or> p = 5151)\<rparr>"

definition example_two_changed :: world where
  "example_two_changed = example_two\<lparr>w_Fingerprint := (\<lambda>root. Inr ''def456'')\<rparr>"

definition example_other :: workspace where
  "example_other =
     \<lparr>ws_by_hash = [(''def456'', emptyDir)], ws_by_pid = [(''5151'', ''def456'')],
      ws_last = None, ws_cache = Map.empty\<rparr>"

text \<open>
  Every file of a directory of blobs is named by the hex of the sha256 of its bytes.
  \<open>intact\<close>: so are the blobs of the build directory and the files of the cache.
\<close>

definition addressed :: "world \<Rightarrow> (string \<rightharpoonup> bytes) \<Rightarrow> bool" where
  "addressed w files = (\<forall>k bs. files k = Some bs \<longrightarrow> k = w_sha256hex w bs)"

definition intact :: "world \<Rightarrow> buildfs \<Rightarrow> bool" where
  "intact w fs = (addressed w (fs_blobs fs) \<and> addressed w (fs_cache fs))"

text \<open>
  A layer whose compressed stream, when it is delivered whole, has the layer's digest;
  a registry all of whose layers are such; a language builder whose layer writers keep
  the blobs and the cache intact.
\<close>

definition faithful :: "world \<Rightarrow> Layer \<Rightarrow> bool" where
  "faithful w layer =
     (\<forall>digest bs. l_Digest layer = Inr digest \<longrightarrow> l_Compressed layer = Inr (bs, None) \<longrightarrow>
        hash_Hex digest = w_sha256hex w bs)"

definition faithful_registry :: "world \<Rightarrow> bool" where
  "faithful_registry w =
     (\<forall>ref p img layers. w_remote w ref p = Inr img \<longrightarrow> img_Layers img = Inr layers \<longrightarrow>
        (\<forall>layer \<in> set layers. faithful w layer))"

definition keeps_intact :: "world \<Rightarrow> languageBuilder \<Rightarrow> bool" where
  "keeps_intact w lb =
     (\<forall>job p fs. intact w fs \<longrightarrow>
        intact w (snd (lb_WriteShared lb job fs)) \<and> intact w (snd (lb_WritePlatform lb job p fs)))"

text \<open>
  A registry connection that breaks after four bytes of the base layer, for a build run by
  process 4141, which is gone afterwards.
\<close>

definition example_broken_base :: Image where
  "example_broken_base =
     example_base\<lparr>img_Layers :=
       Inr [example_baseLayer\<lparr>l_Compressed := Inr (''base'', Some (ErrExternal ''connection reset''))\<rparr>]\<rparr>"

definition example_broken :: world where
  "example_broken =
     example_world\<lparr>w_Getpid := 4141, w_Signal0 := (\<lambda>p. p = 4141),
                   w_remote := (\<lambda>ref p. Inr example_broken_base)\<rparr>"

text \<open>
  The layer descriptors and the diffIDs a base image brings (none without a base), and
  what the build writes for a platform: a manifest, known by the digest of its encoding,
  that lists the base's layers, the data layer, the certificates layer, the builder's
  shared layers and its layers for the platform, and refers by digest to a config whose
  diffIDs are those of the same layers in the same order.
\<close>

definition baseDescriptors :: "Image option \<Rightarrow> Descriptor list" where
  "baseDescriptors base =
     (case base of
        None \<Rightarrow> []
      | Some img \<Rightarrow> (case img_Manifest img of Inl err \<Rightarrow> [] | Inr m \<Rightarrow> m_Layers m))"

definition baseDiffIDs :: "Image option \<Rightarrow> Hash list" where
  "baseDiffIDs base =
     (case base of
        None \<Rightarrow> []
      | Some img \<Rightarrow> (case img_ConfigFile img of Inl err \<Rightarrow> [] | Inr c \<Rightarrow> cf_RootFS_DiffIDs c))"

definition platform_image ::
  "world \<Rightarrow> languageBuilder \<Rightarrow> buildJob \<Rightarrow> imageLayer \<Rightarrow> imageLayer \<Rightarrow> imageLayer list
     \<Rightarrow> Platform \<Rightarrow> Descriptor \<Rightarrow> bool"
where
  "platform_image w lb job data certs shared p md =
     (\<exists>platformLayers base manifest configFile fs_a fs_b fs_c.
        lb_WritePlatform lb job p fs_a = (Inr platformLayers, fs_b) \<and>
        pullBase w lb job p fs_b = (Inr base, fs_c) \<and>
        d_Platform md = Some p \<and>
        d_Digest md = sha256 w (w_json w (ManifestDoc manifest)) \<and>
        m_Layers manifest =
          baseDescriptors base @ [il_Descriptor data, il_Descriptor certs] @
          map il_Descriptor shared @ map il_Descriptor platformLayers \<and>
        d_Digest (m_Config manifest) = sha256 w (w_json w (ConfigDoc configFile)) \<and>
        map Inr (cf_RootFS_DiffIDs configFile) =
          map Inr (baseDiffIDs base) @ [l_DiffID (il_Layer data), l_DiffID (il_Layer certs)] @
          map (\<lambda>l. l_DiffID (il_Layer l)) shared @
          map (\<lambda>l. l_DiffID (il_Layer l)) platformLayers)"

text \<open>A build directory after setup and scaffolding.\<close>

definition example_fs :: buildfs where
  "example_fs =
     \<lparr>fs_blobs = Map.empty, fs_cache = Map.empty,
      fs_certs = Some (Regular \<lparr>fa_name = ''ca-certificates.crt'', fa_mode = 420, fa_uid = 0,
                                fa_gid = 0\<rparr> ''CERTS''),
      fs_layout = None, fs_index = None\<rparr>"

(*PROPERTIES*)

section \<open>Ownership of tar entries\<close>

lemma owned_snoc: "owned (tw @ [(h, b)]) = (owned tw \<and> h_Uid h = DefaultUid \<and> h_Gid h = DefaultGid)"
  by (auto simp: owned_def)

lemma visit_owner:
  assumes "visit root ignored path n tw = (r, tw')" and "owned tw"
  shows "owned tw'"
  using assms unfolding visit_def Let_def
  by (simp add: owned_snoc split: if_splits sum.splits) (auto simp: owned_snoc)

lemma visit_all_owner:
  "visit_all root ignored es tw = (r, tw') \<Longrightarrow> owned tw \<Longrightarrow> owned tw'"
proof (induction es arbitrary: tw)
  case Nil
  then show ?case by simp
next
  case (Cons x es)
  obtain p n where x: "x = (p, n)" by (cases x)
  obtain r1 tw1 where v: "visit root ignored p n tw = (r1, tw1)"
    by (cases "visit root ignored p n tw")
  have ok1: "owned tw1" using visit_owner[OF v Cons.prems(2)] .
  show ?case
  proof (cases r1)
    case (WalkErr e)
    with Cons.prems(1) x v ok1 show ?thesis by auto
  next
    case WalkOk
    with Cons.prems(1) x v have "visit_all root ignored es tw1 = (r, tw')" by simp
    from Cons.IH[OF this ok1] show ?thesis .
  next
    case SkipDir
    with Cons.prems(1) x v have "visit_all root ignored es tw1 = (r, tw')" by simp
    from Cons.IH[OF this ok1] show ?thesis .
  qed
qed

lemma certs_entries_owner:
  "certs_entries fi paths tw = (r, tw') \<Longrightarrow> owned tw \<Longrightarrow> owned tw'"
proof (induction paths arbitrary: tw)
  case Nil
  then show ?case by simp
next
  case (Cons p ps)
  show ?case
  proof (cases "FileInfoHeader fi []")
    case (Inl e)
    with Cons.prems show ?thesis by simp
  next
    case (Inr h)
    show ?thesis
    proof (cases "ReadAll fi")
      case (Inl e)
      with Inr Cons.prems show ?thesis by (auto simp: Let_def owned_snoc)
    next
      case (Inr bs)
      with \<open>FileInfoHeader fi [] = Inr h\<close> Cons.prems(1)
      have "certs_entries fi ps (tw @ [(h\<lparr>h_Name := p, h_Uid := DefaultUid, h_Gid := DefaultGid\<rparr>, bs)]) = (r, tw')"
        by (simp add: Let_def)
      from Cons.IH[OF this] Cons.prems(2) show ?thesis by (simp add: owned_snoc)
    qed
  qed
qed


lemma newCertsTarball_owner: "owned (snd (newCertsTarball source))"
proof (cases source)
  case None
  then show ?thesis by (simp add: newCertsTarball_def owned_def)
next
  case (Some fi)
  obtain r tw where c: "certs_entries fi certsPaths [] = (r, tw)"
    by (cases "certs_entries fi certsPaths []")
  have "owned tw" using certs_entries_owner[OF c] by (simp add: owned_def)
  with Some c show ?thesis by (simp add: newCertsTarball_def)
qed

lemma goExeTarball_owner:
  assumes "goExeTarball (Some info) = (None, tw)"
  shows "\<exists>h b. tw = [(h, b)] \<and> h_Uid h = fa_uid (attr info) \<and> h_Gid h = fa_gid (attr info)"
  using assms unfolding goExeTarball_def Let_def
  by (cases info) (auto split: sum.splits)

text \<open>
  C3. Every tar entry of every tarball of a build has owner 1000 and group 1000. The
  source data tarball and the certificates tarball set both ids; \<open>goExeTarball\<close> sets
  neither, so the entry of the executable tarball keeps the ids of the binary on the
  build host: for a binary owned by root the entry has owner 0 and group 0.
\<close>

theorem goExeTarball_keeps_host_owner:
  "goExeTarball (Some example_binary) =
     (None, [(\<lparr>h_Typeflag = TypeReg, h_Name = ''/func/f'', h_Linkname = [], h_Size = 3,
               h_Mode = 493, h_Uid = 0, h_Gid = 0\<rparr>, ''ELF'')])"
  by code_simp

section \<open>The walk and the symlink policy\<close>

lemma visit_all_append:
  "visit_all root ignored (xs @ ys) tw =
     (case visit_all root ignored xs tw of
        (Some e, tw') \<Rightarrow> (Some e, tw')
      | (None, tw') \<Rightarrow> visit_all root ignored ys tw')"
  by (induction xs arbitrary: tw) (auto split: prod.splits walk_result.splits)

lemma visit_ignored:
  "fa_name (attr n) \<in> set ignored \<Longrightarrow>
     visit root ignored path n tw = ((if IsDir n then SkipDir else WalkOk), tw)"
  by (simp add: visit_def)

lemma visit_not_skip:
  "fa_name (attr n) \<notin> set ignored \<Longrightarrow> fst (visit root ignored path n tw) \<noteq> SkipDir"
  by (auto simp: visit_def Let_def split: sum.splits)

lemma walk_visit_all:
  "walk root ignored path n tw = visit_all root ignored (reach ignored path n) tw"
  "walk_children root ignored path cs tw = visit_all root ignored (reach_children ignored path cs) tw"
proof (induction root ignored path n tw and root ignored path cs tw rule: walk_walk_children.induct)
  case (1 root ignored path n tw)
  show ?case
  proof (cases "fa_name (attr n) \<in> set ignored")
    case True
    then show ?thesis by (cases n) (simp_all add: visit_ignored)
  next
    case False
    obtain r tw' where v: "visit root ignored path n tw = (r, tw')" by (cases "visit root ignored path n tw")
    with False have ns: "r \<noteq> SkipDir" using visit_not_skip[of n ignored root path tw] by simp
    show ?thesis
    proof (cases r)
      case WalkOk
      with v False 1 show ?thesis by (cases n) simp_all
    next
      case SkipDir
      with ns show ?thesis by simp
    next
      case (WalkErr e)
      with v False show ?thesis by simp
    qed
  qed
next
  case (2 root ignored path tw)
  show ?case by simp
next
  case (3 root ignored path c cs tw)
  then show ?case
    by (auto simp: visit_all_append split: prod.splits option.splits)
qed




lemma newDataTarball_owner: "owned (snd (newDataTarball root tree ignored))"
proof -
  obtain r tw where w: "visit_all root ignored (reach ignored root tree) [] = (r, tw)"
    by (cases "visit_all root ignored (reach ignored root tree) []")
  have "owned tw" using visit_all_owner[OF w] by (simp add: owned_def)
  then have "owned (snd (visit_all root ignored (reach ignored root tree) []))"
    unfolding w by simp
  then show ?thesis unfolding newDataTarball_def walk_visit_all(1) .
qed










section \<open>The config file\<close>

lemma Itoa_default: "Itoa DefaultUid = ''1000''" "Itoa DefaultGid = ''1000''"
  by (simp_all add: Itoa_def itoa_nat.simps digit_char_def DefaultUid_def DefaultGid_def)

lemma populateDiffIDs_acc:
  "populateDiffIDs ls acc = Inr ds \<Longrightarrow>
     \<exists>ds'. ds = acc @ ds' \<and> map (\<lambda>l. l_DiffID (il_Layer l)) ls = map Inr ds'"
proof (induction ls arbitrary: acc)
  case Nil
  then show ?case by simp
next
  case (Cons l ls)
  show ?case
  proof (cases "l_DiffID (il_Layer l)")
    case (Inl e)
    with Cons.prems show ?thesis by simp
  next
    case (Inr d)
    with Cons.prems have "populateDiffIDs ls (acc @ [d]) = Inr ds" by simp
    from Cons.IH[OF this] obtain ds' where
      "ds = (acc @ [d]) @ ds'" "map (\<lambda>l. l_DiffID (il_Layer l)) ls = map Inr ds'" by blast
    with Inr show ?thesis by (intro exI[of _ "d # ds'"]) simp
  qed
qed

text \<open>
  C7. With a base image, the config file that \<open>newConfigFile\<close> produces has the user of
  the base's config when that is not empty and \<open>1000:1000\<close> otherwise, and the base's
  environment, history and diffIDs stand, in the base's order, before the build's own
  environment, its one history entry and the diffIDs of the new layers.
\<close>

theorem base_config_carried_over:
  assumes "newConfigFile w job p (Some base) layers = Inr cfg"
  shows "\<exists>baseCfg diffIDs.
           img_ConfigFile base = Inr baseCfg \<and>
           map (\<lambda>l. l_DiffID (il_Layer l)) layers = map Inr diffIDs \<and>
           c_User (cf_Config cfg) =
             (if c_User (cf_Config baseCfg) \<noteq> [] then c_User (cf_Config baseCfg) else ''1000:1000'') \<and>
           c_Env (cf_Config cfg) = c_Env (cf_Config baseCfg) @ newConfigEnvs w job \<and>
           cf_History cfg = cf_History baseCfg @
             [\<lparr>hi_Author = ''func'', hi_Created = j_start job, hi_Comment = ''func host builder'',
               hi_EmptyLayer = True\<rparr>] \<and>
           cf_RootFS_DiffIDs cfg = cf_RootFS_DiffIDs baseCfg @ diffIDs"
proof -
  from assms obtain ds where ds: "populateDiffIDs layers [] = Inr ds"
    unfolding newConfigFile_def Let_def by (cases "populateDiffIDs layers []") auto
  from assms ds obtain baseCfg where bc: "img_ConfigFile base = Inr baseCfg"
    unfolding newConfigFile_def Let_def by (cases "img_ConfigFile base") auto
  from populateDiffIDs_acc[OF ds] have m: "map (\<lambda>l. l_DiffID (il_Layer l)) layers = map Inr ds"
    by simp
  show ?thesis
    using assms ds bc m unfolding newConfigFile_def Let_def
    by (intro exI[of _ baseCfg] exI[of _ ds]) (auto simp: Itoa_default)
qed


theorem base_config_carried_over_witness:
  "\<exists>cfg. newConfigFile example_world example_job example_platform (Some example_base) [] = Inr cfg \<and>
         c_User (cf_Config cfg) = ''nobody'' \<and>
         c_Env (cf_Config cfg) = ''PATH=/usr/bin'' # newConfigEnvs example_world example_job \<and>
         cf_History cfg = cf_History example_baseCfg @
           [\<lparr>hi_Author = ''func'', hi_Created = 0, hi_Comment = ''func host builder'',
             hi_EmptyLayer = True\<rparr>] \<and>
         cf_RootFS_DiffIDs cfg = [\<lparr>hash_Algorithm = ''sha256'', hash_Hex = ''b0''\<rparr>]"
proof -
  obtain cfg where
    h: "newConfigFile example_world example_job example_platform (Some example_base) [] = Inr cfg"
    by (simp add: newConfigFile_def Let_def example_base_def)
  from base_config_carried_over[OF h] obtain baseCfg diffIDs where
    b: "img_ConfigFile example_base = Inr baseCfg" and
    d: "map (\<lambda>l. l_DiffID (il_Layer l)) ([] :: imageLayer list) = map Inr diffIDs" and
    rest: "c_User (cf_Config cfg) =
             (if c_User (cf_Config baseCfg) \<noteq> [] then c_User (cf_Config baseCfg) else ''1000:1000'')"
          "c_Env (cf_Config cfg) = c_Env (cf_Config baseCfg) @ newConfigEnvs example_world example_job"
          "cf_History cfg = cf_History baseCfg @
             [\<lparr>hi_Author = ''func'', hi_Created = j_start example_job,
               hi_Comment = ''func host builder'', hi_EmptyLayer = True\<rparr>]"
          "cf_RootFS_DiffIDs cfg = cf_RootFS_DiffIDs baseCfg @ diffIDs"
    by blast
  from b have bc: "baseCfg = example_baseCfg" by (simp add: example_base_def)
  from d have "diffIDs = []" by simp
  with h rest bc show ?thesis
    by (simp add: example_baseCfg_def example_job_def)
qed

lemma newConfigFile_env:
  assumes "newConfigFile w job p base layers = Inr cfg"
  shows "c_Env (cf_Config cfg) = baseEnv base @ newConfigEnvs w job"
  using assms unfolding newConfigFile_def Let_def baseEnv_def
  by (auto split: sum.splits option.splits if_splits)

lemma newConfigFile_git_independent:
  assumes "newConfigFile w job p base layers = Inr cfg"
  shows "\<exists>cfg'. newConfigFile (w\<lparr>w_git_describe := g\<rparr>) job p base layers = Inr cfg'"
  using assms unfolding newConfigFile_def Let_def
  by (auto split: sum.splits option.splits if_splits)

lemma go_config_env_git:
  assumes "newConfigFile w job p base layers = Inr cfg0"
      and "goBuilder_Configure job p cfg0 = Inr cfg"
  shows "c_Env (cf_Config cfg) =
           baseEnv base @
           [''FUNC_CREATED='' @ w_RFC3339 w (j_start job),
            ''FUNC_VERSION='' @ (case w_git_describe w (f_Root (j_function job)) of
                                   Inl err \<Rightarrow> []
                                 | Inr output \<Rightarrow> w_TrimSpace w output)] @
           f_Envs (j_function job) @ [''LISTEN_ADDRESS=[::]:8080'']"
proof -
  have env: "c_Env (cf_Config cfg) = c_Env (cf_Config cfg0) @ [''LISTEN_ADDRESS=[::]:8080'']"
    using assms(2) by (auto simp: goBuilder_Configure_def)
  show ?thesis
    using env newConfigFile_env[OF assms(1)]
    by (simp add: newConfigEnvs_def Let_def split: sum.splits)
qed

lemma go_config_env_no_git:
  assumes "newConfigFile w job p base layers = Inr cfg0"
  shows "\<exists>cfg1 cfg'. newConfigFile (w\<lparr>w_git_describe := (\<lambda>root. Inl err)\<rparr>) job p base layers = Inr cfg1 \<and>
                     goBuilder_Configure job p cfg1 = Inr cfg' \<and>
                     c_Env (cf_Config cfg') =
                       baseEnv base @
                       [''FUNC_CREATED='' @ w_RFC3339 w (j_start job), ''FUNC_VERSION=''] @
                       f_Envs (j_function job) @ [''LISTEN_ADDRESS=[::]:8080'']"
proof -
  let ?w = "w\<lparr>w_git_describe := (\<lambda>root. Inl err)\<rparr>"
  from newConfigFile_git_independent[OF assms] obtain cfg1 where
    c1: "newConfigFile ?w job p base layers = Inr cfg1" by blast
  have "c_Env (cf_Config cfg1) = baseEnv base @ newConfigEnvs ?w job"
    using newConfigFile_env[OF c1] .
  then show ?thesis
    using c1 by (simp add: goBuilder_Configure_def newConfigEnvs_def Let_def)
qed

text \<open>
  C9. The environment of the config a Go build produces for a platform is, after the
  environment of the base image: \<open>FUNC_CREATED=\<close> with the job's start time in
  RFC 3339, \<open>FUNC_VERSION=\<close> with the trimmed output of \<open>git describe --tags\<close>, the
  function's own variables, and \<open>LISTEN_ADDRESS=[::]:8080\<close>. A failing git is not
  fatal: the same build with a failing git still produces its config, with the empty
  \<open>FUNC_VERSION=\<close>.
\<close>

theorem go_config_env:
  assumes "newConfigFile w job p base layers = Inr cfg0"
      and "goBuilder_Configure job p cfg0 = Inr cfg"
  shows "c_Env (cf_Config cfg) =
           baseEnv base @
           [''FUNC_CREATED='' @ w_RFC3339 w (j_start job),
            ''FUNC_VERSION='' @ (case w_git_describe w (f_Root (j_function job)) of
                                   Inl err \<Rightarrow> []
                                 | Inr output \<Rightarrow> w_TrimSpace w output)] @
           f_Envs (j_function job) @ [''LISTEN_ADDRESS=[::]:8080''] \<and>
         (\<exists>cfg1 cfg'. newConfigFile (w\<lparr>w_git_describe := (\<lambda>root. Inl (ErrExternal ''git''))\<rparr>)
                         job p base layers = Inr cfg1 \<and>
                     goBuilder_Configure job p cfg1 = Inr cfg' \<and>
                     c_Env (cf_Config cfg') =
                       baseEnv base @
                       [''FUNC_CREATED='' @ w_RFC3339 w (j_start job), ''FUNC_VERSION=''] @
                       f_Envs (j_function job) @ [''LISTEN_ADDRESS=[::]:8080''])"
  using go_config_env_git[OF assms] go_config_env_no_git[OF assms(1)] by blast

theorem go_config_env_witness:
  "\<exists>cfg0 cfg. newConfigFile example_world example_job example_platform (Some example_base) [] = Inr cfg0 \<and>
     goBuilder_Configure example_job example_platform cfg0 = Inr cfg \<and>
     c_Env (cf_Config cfg) =
       [''PATH=/usr/bin'', ''FUNC_CREATED=1970-01-01T00:00:00Z'', ''FUNC_VERSION=v1.2.3'',
        ''GREETING=hello'', ''LISTEN_ADDRESS=[::]:8080'']"
proof -
  obtain cfg0 where
    h: "newConfigFile example_world example_job example_platform (Some example_base) [] = Inr cfg0"
    by (simp add: newConfigFile_def Let_def example_base_def)
  obtain cfg where g: "goBuilder_Configure example_job example_platform cfg0 = Inr cfg"
    by (simp add: goBuilder_Configure_def)
  from go_config_env[OF h g] h g show ?thesis
    by (simp add: baseEnv_def example_base_def example_baseCfg_def example_world_def
          example_job_def example_function_def)
qed

section \<open>The workspace: liveness links, setup and cleanup\<close>

lemma isLinkTo_pid:
  "isLinkTo ws (PidLink n) (BuildDir h) =
     (map_of (ws_by_pid ws) n = Some h \<and> h \<in> set (ReadDir (ws_by_hash ws)))"
  by (auto simp: isLinkTo_def existingDir_def split: option.splits)

lemma isLinkTo_last:
  "isLinkTo ws LastLink (BuildDir d) =
     (ws_last ws = Some d \<and> d \<in> set (ReadDir (ws_by_hash ws)))"
  by (auto simp: isLinkTo_def existingDir_def split: option.splits)

lemma isActive_loop_ex:
  "isActive_loop w j ws ns =
     (\<exists>n \<in> set ns. processExists w n \<and> isLinkTo ws (PidLink n) (BuildDir (j_hash j)))"
  by (induction ns) auto

lemma isActive_ex:
  "isActive w j ws =
     (\<exists>n \<in> set (ReadDir (ws_by_pid ws)).
        processExists w n \<and> isLinkTo ws (PidLink n) (BuildDir (j_hash j)))"
  by (simp add: isActive_def isActive_loop_ex)

lemma processExists_cases:
  "processExists w n =
     (\<exists>p. Atoi n = Some p \<and> w_FindProcess w p \<and> (w_windows w \<or> w_Signal0 w p))"
  by (auto simp: processExists_def split: option.splits)

lemma setup_job_in_progress:
  "(fst (setup_job w job ws) = Some (ErrBuildInProgress (buildDir job))) = isActive w job ws"
  by (auto simp: setup_job_def Let_def)

lemma setup_job_in_progress_state:
  "isActive w job ws \<Longrightarrow> setup_job w job ws = (Some (ErrBuildInProgress (buildDir job)), ws)"
  by (simp add: setup_job_def)

lemma ReadDir_RemoveAll: "set (ReadDir (RemoveAll d xs)) = set (ReadDir xs) - {d}"
  by (auto simp: ReadDir_def RemoveAll_def)

lemma map_of_RemoveAll:
  "map_of (RemoveAll d xs) n = (if n = d then None else map_of xs n)"
  by (induction xs) (auto simp: RemoveAll_def)

lemma cleanup_pids_frame:
  "ws_last (cleanup_pids w ns ws) = ws_last ws"
  "ws_by_hash (cleanup_pids w ns ws) = ws_by_hash ws"
  "ws_cache (cleanup_pids w ns ws) = ws_cache ws"
  by (induction ns arbitrary: ws) auto

lemma cleanup_pids_by_pid:
  "ws_by_pid (cleanup_pids w ns ws) =
     filter (\<lambda>e. fst e \<in> set ns \<longrightarrow> processExists w (fst e)) (ws_by_pid ws)"
proof (induction ns arbitrary: ws)
  case Nil
  then show ?case by simp
next
  case (Cons d dd)
  show ?case
  proof (cases "processExists w d")
    case True
    then have "filter (\<lambda>e. fst e \<in> set (d # dd) \<longrightarrow> processExists w (fst e)) (ws_by_pid ws) =
               filter (\<lambda>e. fst e \<in> set dd \<longrightarrow> processExists w (fst e)) (ws_by_pid ws)"
      by (intro filter_cong) auto
    with True Cons.IH show ?thesis by simp
  next
    case False
    then have "filter (\<lambda>e. fst e \<in> set (d # dd) \<longrightarrow> processExists w (fst e)) (ws_by_pid ws) =
               filter (\<lambda>e. fst e \<in> set dd \<longrightarrow> processExists w (fst e)) (RemoveAll d (ws_by_pid ws))"
      unfolding RemoveAll_def filter_filter by (intro filter_cong) auto
    with False Cons.IH[of "ws\<lparr>ws_by_pid := RemoveAll d (ws_by_pid ws)\<rparr>"] show ?thesis by simp
  qed
qed

lemma cleanup_builds_frame:
  "ws_last (cleanup_builds w job ds ws) = ws_last ws"
  "ws_by_pid (cleanup_builds w job ds ws) = ws_by_pid ws"
  "ws_cache (cleanup_builds w job ds ws) = ws_cache ws"
  by (induction ds arbitrary: ws) auto

lemma cleanup_builds_active:
  "isActive w job ws \<Longrightarrow> cleanup_builds w job ds ws = ws"
  by (induction ds) auto

lemma cleanup_last: "ws_last (cleanup w job ws) = ws_last ws"
  by (simp add: cleanup_def Let_def cleanup_builds_frame cleanup_pids_frame)


lemma digit_val_digit_char: "d < 10 \<Longrightarrow> digit_val (digit_char d) = Some d"
proof -
  assume "d < 10"
  then have "d = 0 \<or> d = 1 \<or> d = 2 \<or> d = 3 \<or> d = 4 \<or> d = 5 \<or> d = 6 \<or> d = 7 \<or> d = 8 \<or> d = 9"
    by arith
  then show ?thesis
    by (elim disjE) (simp_all add: digit_val_def digit_char_def)
qed

lemma parse_digits_append:
  "parse_digits acc (xs @ ys) =
     (case parse_digits acc xs of None \<Rightarrow> None | Some a \<Rightarrow> parse_digits a ys)"
  by (induction xs arbitrary: acc) (auto split: option.splits)

lemma parse_digits_itoa_nat: "parse_digits 0 (itoa_nat n) = Some n"
proof (induction n rule: itoa_nat.induct)
  case (1 n)
  show ?case
  proof (cases "n < 10")
    case True
    then show ?thesis
      by (subst itoa_nat.simps) (simp add: digit_val_digit_char)
  next
    case False
    with 1 have ih: "parse_digits 0 (itoa_nat (n div 10)) = Some (n div 10)" by simp
    have "parse_digits 0 (itoa_nat n) =
            parse_digits 0 (itoa_nat (n div 10) @ [digit_char (n mod 10)])"
      using False by (subst itoa_nat.simps) simp
    also have "\<dots> = Some (n div 10 * 10 + n mod 10)"
      by (simp add: parse_digits_append ih digit_val_digit_char)
    finally show ?thesis by simp
  qed
qed

lemma itoa_nat_digits: "c \<in> set (itoa_nat n) \<Longrightarrow> \<exists>d < 10. c = digit_char d"
proof (induction n rule: itoa_nat.induct)
  case (1 n)
  show ?case
  proof (cases "n < 10")
    case True
    with "1.prems" show ?thesis by (subst (asm) itoa_nat.simps) auto
  next
    case False
    with "1.prems" have "c \<in> set (itoa_nat (n div 10)) \<or> c = digit_char (n mod 10)"
      by (subst (asm) itoa_nat.simps) auto
    with 1 False show ?thesis by (metis mod_less_divisor zero_less_numeral)
  qed
qed

lemma itoa_nat_nonempty: "itoa_nat n \<noteq> []"
  by (subst itoa_nat.simps) simp

lemma digit_char_not_sign: "d < 10 \<Longrightarrow> digit_char d \<noteq> CHR ''-'' \<and> digit_char d \<noteq> CHR ''+''"
proof -
  assume d: "d < 10"
  have "digit_val (CHR ''-'') = None" "digit_val (CHR ''+'') = None"
    by (simp_all add: digit_val_def)
  with digit_val_digit_char[OF d] show ?thesis by auto
qed

lemma Atoi_Itoa:
  assumes "0 \<le> i" and "i < 2 ^ 63"
  shows "Atoi (Itoa i) = Some i"
proof -
  let ?s = "itoa_nat (nat i)"
  obtain c cs where s: "?s = c # cs" using itoa_nat_nonempty[of "nat i"] by (cases ?s) auto
  then have "c \<in> set ?s" by simp
  then obtain d where "d < 10" "c = digit_char d" using itoa_nat_digits by blast
  then have c: "c \<noteq> CHR ''-''" "c \<noteq> CHR ''+''" using digit_char_not_sign by auto
  have p: "parse_digits 0 (c # cs) = Some (nat i)"
    using parse_digits_itoa_nat[of "nat i"] s by simp
  have "Atoi (c # cs) = Some i"
    unfolding Atoi_def using c p assms by (simp del: parse_digits.simps)
  with s assms show ?thesis by (simp add: Itoa_def)
qed

lemma own_process_exists:
  assumes "0 \<le> w_Getpid w" "w_Getpid w < 2 ^ 63" "w_FindProcess w (w_Getpid w)"
          "w_windows w \<or> w_Signal0 w (w_Getpid w)"
  shows "processExists w (Itoa (w_Getpid w))"
  using assms by (auto simp: processExists_def Atoi_Itoa)


lemma ReadDir_map_keys [simp]:
  "ReadDir (map (\<lambda>(h, d). if h = k then (h, g d) else (h, d)) xs) = ReadDir xs"
  by (induction xs) (auto simp: ReadDir_def)

lemma ReadDir_map_keys' [simp]:
  "ReadDir (map (\<lambda>(h, d). if h = k then (h, c) else (h, d)) xs) = ReadDir xs"
  by (induction xs) (auto simp: ReadDir_def)

lemma scaffold_frame:
  assumes "scaffold w job ws = (r, ws')"
  shows "ws_last ws' = ws_last ws" "ws_by_pid ws' = ws_by_pid ws"
        "ReadDir (ws_by_hash ws') = ReadDir (ws_by_hash ws)"
  using assms by (auto simp: scaffold_def split: sum.splits)

lemma containerizeJob_frame:
  assumes "containerizeJob w lb job ws = (r, ws')"
  shows "ws_last ws' = ws_last ws" "ws_by_pid ws' = ws_by_pid ws"
        "ReadDir (ws_by_hash ws') = ReadDir (ws_by_hash ws)"
  using assms by (auto simp: containerizeJob_def split: option.splits prod.splits)

lemma updateLastLink_frame:
  assumes "updateLastLink job ws = (r, ws')"
  shows "ws_by_pid ws' = ws_by_pid ws" "ws_by_hash ws' = ws_by_hash ws"
        "r = None \<Longrightarrow> ws_last ws' = Some (j_hash job)"
  using assms by (auto simp: updateLastLink_def Let_def split: sum.splits)

lemma updateLastLink_ok:
  assumes "Rel (Dir (lastLink job)) (buildDir job) = Inr rp"
  shows "updateLastLink job ws = (None, ws\<lparr>ws_last := Some (j_hash job)\<rparr>)"
  using assms by (simp add: updateLastLink_def)

lemma afterSetup_frame:
  assumes "afterSetup w lb job ws = (r, ws')"
  shows "ws_by_pid ws' = ws_by_pid ws" "ReadDir (ws_by_hash ws') = ReadDir (ws_by_hash ws)"
        "r = None \<Longrightarrow> ws_last ws' = Some (j_hash job)"
proof -
  obtain r1 ws1 where s: "scaffold w job ws = (r1, ws1)" by (cases "scaffold w job ws")
  obtain r2 ws2 where c: "containerizeJob w lb job ws1 = (r2, ws2)"
    by (cases "containerizeJob w lb job ws1")
  obtain r3 ws3 where u: "updateLastLink job ws2 = (r3, ws3)" by (cases "updateLastLink job ws2")
  note fs = scaffold_frame[OF s] containerizeJob_frame[OF c] updateLastLink_frame[OF u]
  show "ws_by_pid ws' = ws_by_pid ws"
    using assms s c u fs by (auto simp: afterSetup_def split: option.splits)
  show "ReadDir (ws_by_hash ws') = ReadDir (ws_by_hash ws)"
    using assms s c u fs by (auto simp: afterSetup_def split: option.splits)
  show "r = None \<Longrightarrow> ws_last ws' = Some (j_hash job)"
    using assms s c u fs by (auto simp: afterSetup_def split: option.splits)
qed

lemma afterSetup_failed_last:
  assumes "afterSetup w lb job ws = (Some e, ws')"
      and "Rel (Dir (lastLink job)) (buildDir job) = Inr rp"
  shows "ws_last ws' = ws_last ws"
proof -
  obtain r1 ws1 where s: "scaffold w job ws = (r1, ws1)" by (cases "scaffold w job ws")
  obtain r2 ws2 where c: "containerizeJob w lb job ws1 = (r2, ws2)"
    by (cases "containerizeJob w lb job ws1")
  note fs = scaffold_frame[OF s] containerizeJob_frame[OF c]
  show ?thesis
    using assms s c fs by (auto simp: afterSetup_def updateLastLink_ok split: option.splits)
qed

lemma setup_job_last:
  "setup_job w job ws = (r, ws') \<Longrightarrow> ws_last ws' = ws_last ws"
  by (auto simp: setup_job_def Let_def split: if_splits)

lemma map_of_snoc_fresh:
  "map_of xs k = None \<Longrightarrow> map_of (xs @ [(k, v)]) k = Some v"
  by (induction xs) (auto split: if_splits)

lemma setup_job_ok_holds:
  assumes "setup_job w job ws = (None, ws')"
  shows "holdsLink w (j_hash job) ws'"
proof -
  let ?pid = "Itoa (w_Getpid w)"
  from assms have fresh: "map_of (ws_by_pid ws) ?pid = None"
    by (auto simp: setup_job_def Let_def split: if_splits)
  from assms have pids: "ws_by_pid ws' = ws_by_pid ws @ [(?pid, j_hash job)]"
    by (auto simp: setup_job_def Let_def split: if_splits)
  from assms have "j_hash job \<in> set (ReadDir (ws_by_hash ws'))"
    by (auto simp: setup_job_def Let_def ReadDir_def split: if_splits)
  with map_of_snoc_fresh[OF fresh, of "j_hash job"] pids show ?thesis
    by (simp add: holdsLink_def del: map_of_append)
qed

lemma map_of_filter_key:
  "(\<And>v. P (k, v)) \<Longrightarrow> map_of (filter P xs) k = map_of xs k"
  by (induction xs) auto

lemma holdsLink_active:
  assumes "holdsLink w (j_hash job) ws" and "processExists w (Itoa (w_Getpid w))"
  shows "isActive w job ws"
proof -
  from assms(1) have m: "map_of (ws_by_pid ws) (Itoa (w_Getpid w)) = Some (j_hash job)"
    and d: "j_hash job \<in> set (ReadDir (ws_by_hash ws))" by (auto simp: holdsLink_def)
  from m have "Itoa (w_Getpid w) \<in> set (ReadDir (ws_by_pid ws))"
    by (auto simp: ReadDir_def dest: map_of_SomeD intro: rev_image_eqI)
  with m d assms(2) show ?thesis
    unfolding isActive_ex isLinkTo_pid by blast
qed

lemma cleanup_holds:
  assumes "holdsLink w (j_hash job) ws" and "processExists w (Itoa (w_Getpid w))"
  shows "holdsLink w (j_hash job) (cleanup w job ws)"
    and "ReadDir (ws_by_hash (cleanup w job ws)) = ReadDir (ws_by_hash ws)"
proof -
  let ?ws1 = "cleanup_pids w (ReadDir (ws_by_pid ws)) ws"
  have pid: "map_of (ws_by_pid ?ws1) (Itoa (w_Getpid w)) = Some (j_hash job)"
    unfolding cleanup_pids_by_pid using assms
    by (simp add: holdsLink_def map_of_filter_key)
  have h1: "holdsLink w (j_hash job) ?ws1"
    using pid assms(1) by (simp add: holdsLink_def cleanup_pids_frame)
  have act: "isActive w job ?ws1" using holdsLink_active[OF h1 assms(2)] .
  have eq: "cleanup w job ws = ?ws1"
    by (simp add: cleanup_def Let_def cleanup_builds_active[OF act])
  show "holdsLink w (j_hash job) (cleanup w job ws)" using h1 eq by simp
  show "ReadDir (ws_by_hash (cleanup w job ws)) = ReadDir (ws_by_hash ws)"
    using eq by (simp add: cleanup_pids_frame)
qed

section \<open>Builds in the workspace\<close>

text \<open>
  C5, amended. Setup fails with \<open>ErrBuildInProgress\<close>, leaving the workspace as it
  was, exactly when some entry of \<open>by-pid\<close> names a process that \<open>processExists\<close>
  accepts and resolves to the build directory of this fingerprint (the link's target
  directory exists and is that directory). \<open>processExists\<close> accepts a name exactly when
  \<open>strconv.Atoi\<close> parses it, \<open>os.FindProcess\<close> finds the process and, off Windows,
  signal 0 reaches it: on Windows a parsed PID that \<open>os.FindProcess\<close> finds is live, and
  one it does not find is not.
\<close>

theorem build_in_progress:
  "(fst (setup_job w job ws) = Some (ErrBuildInProgress (buildDir job))) =
     (\<exists>n \<in> set (ReadDir (ws_by_pid ws)).
        processExists w n \<and> isLinkTo ws (PidLink n) (BuildDir (j_hash job))) \<and>
   (fst (setup_job w job ws) = Some (ErrBuildInProgress (buildDir job)) \<longrightarrow>
      snd (setup_job w job ws) = ws) \<and>
   isLinkTo ws (PidLink n) (BuildDir h) =
     (map_of (ws_by_pid ws) n = Some h \<and> h \<in> set (ReadDir (ws_by_hash ws))) \<and>
   processExists w n =
     (\<exists>p. Atoi n = Some p \<and> w_FindProcess w p \<and> (w_windows w \<or> w_Signal0 w p))"
  using setup_job_in_progress[of w job ws] setup_job_in_progress_state[of w job ws]
        isActive_ex[of w job ws] isLinkTo_pid[of ws n h] processExists_cases[of w n]
  by auto

lemma example_atoi: "Atoi ''4242'' = Some 4242" "Atoi ''777'' = Some 777" "Atoi ''5151'' = Some 5151"
  by (simp_all add: Atoi_def digit_val_def)

lemma example_itoa: "Itoa 4242 = ''4242''"
  by (simp add: Itoa_def itoa_nat.simps digit_char_def)

lemma example_buildDir: "buildDir example_job = ''/proj/.func/builds/by-hash/abc123''"
  by code_simp

theorem build_in_progress_witness:
  "setup_job example_world example_job example_busy =
     (Some (ErrBuildInProgress ''/proj/.func/builds/by-hash/abc123''), example_busy)"
proof -
  have live: "processExists example_world ''4242''"
    by (simp add: processExists_def example_atoi example_world_def)
  have link: "isLinkTo example_busy (PidLink ''4242'') (BuildDir (j_hash example_job))"
    by (simp add: isLinkTo_def existingDir_def example_busy_def example_job_def ReadDir_def)
  have "\<exists>n \<in> set (ReadDir (ws_by_pid example_busy)).
          processExists example_world n \<and>
          isLinkTo example_busy (PidLink n) (BuildDir (j_hash example_job))"
    using live link by (simp add: example_busy_def ReadDir_def)
  with build_in_progress[of example_world example_job example_busy]
  have "fst (setup_job example_world example_job example_busy) =
          Some (ErrBuildInProgress (buildDir example_job))"
       "snd (setup_job example_world example_job example_busy) = example_busy"
    by blast+
  then show ?thesis by (simp add: example_buildDir prod_eq_iff)
qed

text \<open>
  C5 as stated fails on Windows for a numeric PID that \<open>os.FindProcess\<close> does not find:
  the check of its error comes before the one of the operating system.
\<close>

theorem windows_dead_pid_counterexample:
  "w_windows example_windows \<and> Atoi ''777'' = Some 777 \<and>
   \<not> processExists example_windows ''777''"
  by (simp add: processExists_def example_atoi example_windows_def)

text \<open>
  C4. Cleanup is to remove every \<open>by-hash\<close> entry that is neither the target of
  \<open>last\<close> nor backed by a live \<open>by-pid\<close> link. Its second loop asks whether the
  job itself is active, not whether the entry is backed by a live link; while the job's own
  link is there it removes nothing. Here \<open>old\<close> is neither the target of \<open>last\<close> nor
  linked from \<open>by-pid\<close>, and cleanup leaves the workspace as it is.
\<close>

theorem cleanup_keeps_stale_build:
  "cleanup example_world example_job example_stale = example_stale \<and>
   ReadDir (ws_by_hash example_stale) = [''old'', ''abc123''] \<and>
   ReadDir (ws_by_pid example_stale) = [''4242''] \<and>
   \<not> isLinkTo example_stale LastLink (BuildDir ''old'') \<and>
   \<not> isLinkTo example_stale (PidLink ''4242'') (BuildDir ''old'')"
proof -
  have live: "processExists example_world ''4242''"
    by (simp add: processExists_def example_atoi example_world_def)
  have p: "cleanup_pids example_world (ReadDir (ws_by_pid example_stale)) example_stale = example_stale"
    using live by (simp add: example_stale_def ReadDir_def)
  have "holdsLink example_world (j_hash example_job) example_stale"
    by (simp add: holdsLink_def example_stale_def example_job_def example_world_def ReadDir_def
          example_itoa)
  moreover have "processExists example_world (Itoa (w_Getpid example_world))"
    by (rule own_process_exists) (simp_all add: example_world_def)
  ultimately have "isActive example_world example_job example_stale"
    by (rule holdsLink_active)
  then have "cleanup example_world example_job example_stale = example_stale"
    by (simp add: cleanup_def Let_def p cleanup_builds_active)
  moreover have "\<not> isLinkTo example_stale LastLink (BuildDir ''old'')"
    by (simp add: isLinkTo_last example_stale_def)
  moreover have "\<not> isLinkTo example_stale (PidLink ''4242'') (BuildDir ''old'')"
    by (simp add: isLinkTo_pid example_stale_def)
  ultimately show ?thesis by (simp add: example_stale_def ReadDir_def)
qed

lemma Build_unfold:
  "Build w py b f pp ws =
     (case newBuildJob w py f (chosen w pp) (b_verbose b) of
        Inl err \<Rightarrow> (Some err, ws)
      | Inr (job, lb0) \<Rightarrow>
          (case setup_job w job ws of
             (Some err, ws1) \<Rightarrow> (Some err, ws1)
           | (None, ws1) \<Rightarrow>
               (case afterSetup w (override b lb0) job ws1 of
                  (r, ws4) \<Rightarrow> (r, cleanup w job ws4))))"
  by (simp add: Build_def Let_def chosen_def override_def split: sum.splits prod.splits)

lemma Build_ok:
  assumes "Build w py b f pp ws = (None, ws')"
  shows "\<exists>job lb0 ws1 ws4.
           newBuildJob w py f (chosen w pp) (b_verbose b) = Inr (job, lb0) \<and>
           setup_job w job ws = (None, ws1) \<and>
           afterSetup w (override b lb0) job ws1 = (None, ws4) \<and>
           ws' = cleanup w job ws4"
  using assms unfolding Build_unfold
  by (auto split: sum.splits prod.splits option.splits)

lemma Build_failed:
  assumes "Build w py b f pp ws = (Some e, ws')"
  shows "(newBuildJob w py f (chosen w pp) (b_verbose b) = Inl e \<and> ws' = ws) \<or>
         (\<exists>job lb0. newBuildJob w py f (chosen w pp) (b_verbose b) = Inr (job, lb0) \<and>
            (setup_job w job ws = (Some e, ws') \<or>
             (\<exists>ws1 ws4. setup_job w job ws = (None, ws1) \<and>
                afterSetup w (override b lb0) job ws1 = (Some e, ws4) \<and>
                ws' = cleanup w job ws4)))"
  using assms unfolding Build_unfold
  by (auto split: sum.splits prod.splits option.splits)

lemma newBuildJob_hash:
  "newBuildJob w py f pp v = Inr (job, lb) \<Longrightarrow>
     w_Fingerprint w (f_Root f) = Inr (j_hash job) \<and> j_function job = f"
  by (auto simp: newBuildJob_def Let_def split: sum.splits option.splits)

lemma cleanup_builds_keeps_last:
  "ws_last ws = Some d \<Longrightarrow> d \<in> set (ReadDir (ws_by_hash ws)) \<Longrightarrow>
     d \<in> set (ReadDir (ws_by_hash (cleanup_builds w job ds ws)))"
proof (induction ds arbitrary: ws)
  case Nil
  then show ?case by simp
next
  case (Cons x xs)
  show ?case
  proof (cases "isLinkTo ws LastLink (BuildDir x) \<or> isActive w job ws")
    case True
    with Cons show ?thesis by auto
  next
    case False
    with Cons.prems have "x \<noteq> d" by (auto simp: isLinkTo_last)
    with Cons.prems have
      "d \<in> set (ReadDir (ws_by_hash (ws\<lparr>ws_by_hash := RemoveAll x (ws_by_hash ws)\<rparr>)))"
      by (simp add: ReadDir_RemoveAll)
    with Cons.IH[of "ws\<lparr>ws_by_hash := RemoveAll x (ws_by_hash ws)\<rparr>"] Cons.prems(1) False
    show ?thesis by simp
  qed
qed

lemma cleanup_keeps_last_dir:
  assumes "ws_last ws = Some d" "d \<in> set (ReadDir (ws_by_hash ws))"
  shows "d \<in> set (ReadDir (ws_by_hash (cleanup w job ws)))"
  unfolding cleanup_def Let_def
  by (rule cleanup_builds_keeps_last) (simp_all add: cleanup_pids_frame assms)

text \<open>
  C8. The \<open>last\<close> link changes only after setup, scaffold and containerize have all
  succeeded: a build that fails leaves it as it was, and a build that succeeds leaves it
  pointing at the build directory of its fingerprint, which exists. (\<open>updateLastLink\<close>
  computes the relative target with \<open>filepath.Rel\<close> after it has removed the prior link;
  the statement is for roots and fingerprints for which that call returns a path.)
\<close>

theorem last_link_policy:
  assumes run: "Build w py b f pp ws = (r, ws')"
      and rel: "\<And>job lb. newBuildJob w py f (if pp = [] then w_DefaultPlatforms w else pp) (b_verbose b) = Inr (job, lb)
                  \<Longrightarrow> \<exists>rp. Rel (Dir (lastLink job)) (buildDir job) = Inr rp"
  shows "(r \<noteq> None \<longrightarrow> ws_last ws' = ws_last ws) \<and>
         (r = None \<longrightarrow>
            (\<exists>h. w_Fingerprint w (f_Root f) = Inr h \<and> ws_last ws' = Some h \<and>
                  h \<in> set (ReadDir (ws_by_hash ws'))))"
proof (cases r)
  case None
  with run obtain job lb0 ws1 ws4 where
    j: "newBuildJob w py f (chosen w pp) (b_verbose b) = Inr (job, lb0)" and
    s: "setup_job w job ws = (None, ws1)" and
    a: "afterSetup w (override b lb0) job ws1 = (None, ws4)" and
    c: "ws' = cleanup w job ws4"
    using Build_ok by blast
  have l4: "ws_last ws4 = Some (j_hash job)" using afterSetup_frame(3)[OF a] by simp
  have "holdsLink w (j_hash job) ws1" using setup_job_ok_holds[OF s] .
  then have "j_hash job \<in> set (ReadDir (ws_by_hash ws4))"
    using afterSetup_frame(2)[OF a] by (simp add: holdsLink_def)
  then have "j_hash job \<in> set (ReadDir (ws_by_hash ws'))"
    unfolding c using l4 by (intro cleanup_keeps_last_dir)
  moreover have "ws_last ws' = Some (j_hash job)" unfolding c by (simp add: cleanup_last l4)
  ultimately show ?thesis using None newBuildJob_hash[OF j] by auto
next
  case (Some e)
  with run have "Build w py b f pp ws = (Some e, ws')" by simp
  from Build_failed[OF this] show ?thesis
  proof (elim disjE exE conjE)
    assume "ws' = ws"
    with Some show ?thesis by simp
  next
    fix job lb0
    assume "setup_job w job ws = (Some e, ws')"
    with Some show ?thesis by (simp add: setup_job_last)
  next
    fix job lb0 ws1 ws4
    assume j: "newBuildJob w py f (chosen w pp) (b_verbose b) = Inr (job, lb0)"
       and s: "setup_job w job ws = (None, ws1)"
       and a: "afterSetup w (override b lb0) job ws1 = (Some e, ws4)"
       and c: "ws' = cleanup w job ws4"
    from rel[of job lb0] j obtain rp where "Rel (Dir (lastLink job)) (buildDir job) = Inr rp"
      by (auto simp: chosen_def)
    from afterSetup_failed_last[OF a this] have "ws_last ws4 = ws_last ws1" .
    with c Some show ?thesis by (simp add: cleanup_last setup_job_last[OF s])
  qed
qed

lemmas example_eval =
  example_world_def example_job_def example_function_def example_platform_def
  example_tree_def example_project_def example_binary_def example_base_def
  example_baseLayer_def example_baseCfg_def example_builder_def example_json_def

lemmas containerize_eval =
  containerize_def writeDataLayer_def newDataTarball_def visit_def defaultIgnored_def Let_def
  tarballToBlob_def LayerFromFile_def newDescriptor_def writeCertsLayer_def newCertsTarball_def
  certsPaths_def goBuilder_def containerizePlatform_def goBuilder_WritePlatform_def
  goExeTarball_def pullBase_def writeBaseLayer_def ensureCached_def newConfigFile_def
  goBuilder_Configure_def writeConfig_def writeAsJSONBlob_def writeManifest_def writeIndex_def
  Rel_def Clean_def clean_elems_def clean_step_def IsAbs_def path_elems_def ToSlash_def sha256_def

lemmas build_eval =
  Build_def newBuildJob_def builders_def toPlatforms_def setup_job_def isActive_def
  processExists_def isLinkTo_def existingDir_def ReadDir_def RemoveAll_def emptyDir_def
  afterSetup_def scaffold_def containerizeJob_def updateLastLink_def cleanup_def
  lastLink_def buildDir_def pidLink_def RunDataDir_def Dir_def

lemma example_build_ok:
  "fst (Build example_world (goBuilder example_world) example_builder example_function []
          example_empty) = None"
  by (simp add: build_eval containerize_eval example_eval example_empty_def example_itoa example_atoi)

theorem last_link_policy_witness:
  "fst (Build example_world (goBuilder example_world) example_builder example_function []
          example_empty) = None \<and>
   ws_last (snd (Build example_world (goBuilder example_world) example_builder example_function []
          example_empty)) = Some ''abc123'' \<and>
   fst (Build example_noscaffold (goBuilder example_world) example_builder example_function []
          example_prev) = Some (ErrExternal ''scaffold'') \<and>
   ws_last (snd (Build example_noscaffold (goBuilder example_world) example_builder
          example_function [] example_prev)) = Some ''old''"
proof -
  let ?ok = "Build example_world (goBuilder example_world) example_builder example_function []
               example_empty"
  let ?bad = "Build example_noscaffold (goBuilder example_world) example_builder
                example_function [] example_prev"
  have rel: "\<exists>rp. Rel (Dir (lastLink job)) (buildDir job) = Inr rp"
    if "newBuildJob w (goBuilder example_world) example_function
          (if [] = [] then w_DefaultPlatforms w else []) (b_verbose example_builder) = Inr (job, lb)"
       and "w_Fingerprint w = (\<lambda>root. Inr ''abc123'')"
    for w job lb
  proof -
    from that have "j_function job = example_function" "j_hash job = ''abc123''"
      using newBuildJob_hash by fastforce+
    then show ?thesis
      by (simp add: lastLink_def buildDir_def RunDataDir_def Dir_def example_function_def
            Rel_def Clean_def clean_elems_def clean_step_def IsAbs_def path_elems_def)
  qed
  have ok: "fst ?ok = None" by (rule example_build_ok)
  have bad: "fst ?bad = Some (ErrExternal ''scaffold'')"
    by (simp add: build_eval example_eval example_prev_def example_noscaffold_def
          example_itoa example_atoi)
  have 1: "ws_last (snd ?ok) = Some ''abc123''"
    using last_link_policy[of example_world "goBuilder example_world" example_builder
            example_function "[]" example_empty "fst ?ok" "snd ?ok"] rel[of example_world] ok
    by (auto simp: example_world_def)
  have 2: "ws_last (snd ?bad) = Some ''old''"
    using last_link_policy[of example_noscaffold "goBuilder example_world" example_builder
            example_function "[]" example_prev "fst ?bad" "snd ?bad"] rel[of example_noscaffold] bad
    by (auto simp: example_world_def example_noscaffold_def example_prev_def)
  from ok bad 1 2 show ?thesis by simp
qed

lemma setup_job_pid_exists:
  assumes "\<not> isActive w job ws" and "map_of (ws_by_pid ws) (Itoa (w_Getpid w)) = Some h"
  shows "fst (setup_job w job ws) = Some (ErrExist (pidLink w job))"
    and "ws_by_pid (snd (setup_job w job ws)) = ws_by_pid ws"
    and "set (ReadDir (ws_by_hash (snd (setup_job w job ws)))) =
           insert (j_hash job) (set (ReadDir (ws_by_hash ws)))"
proof -
  show "fst (setup_job w job ws) = Some (ErrExist (pidLink w job))"
    using assms by (cases "j_hash job \<in> set (ReadDir (ws_by_hash ws))")
                   (simp_all add: setup_job_def Let_def)
  show "ws_by_pid (snd (setup_job w job ws)) = ws_by_pid ws"
    using assms by (cases "j_hash job \<in> set (ReadDir (ws_by_hash ws))")
                   (simp_all add: setup_job_def Let_def)
  show "set (ReadDir (ws_by_hash (snd (setup_job w job ws)))) =
           insert (j_hash job) (set (ReadDir (ws_by_hash ws)))"
    using assms by (cases "j_hash job \<in> set (ReadDir (ws_by_hash ws))")
                   (auto simp: setup_job_def Let_def ReadDir_def RemoveAll_def)
qed

text \<open>
  C10, amended. After a successful build by a live process, its liveness link is still
  in the workspace and names the build directory of that build, which exists. Every later
  build by the same live process in that workspace fails: with the error of
  \<open>newBuildJob\<close> when no job is made; otherwise in setup, with \<open>ErrBuildInProgress\<close>
  when the fingerprint is unchanged or some live link resolves to the build directory of
  the new fingerprint, and with the error of \<open>os.Symlink\<close> on its existing link
  otherwise. The link and its directory are still there after the failed build.
\<close>

theorem second_build_fails:
  assumes first: "Build w py b f pp ws = (None, ws1)"
      and pid: "0 \<le> w_Getpid w" "w_Getpid w < 2 ^ 63"
      and alive: "w_FindProcess w (w_Getpid w)" "w_windows w \<or> w_Signal0 w (w_Getpid w)"
      and same: "w_Getpid w' = w_Getpid w"
      and alive': "w_FindProcess w' (w_Getpid w)" "w_windows w' \<or> w_Signal0 w' (w_Getpid w)"
  shows "\<exists>h. w_Fingerprint w (f_Root f) = Inr h \<and> holdsLink w h ws1 \<and>
           (case newBuildJob w' py' f' (if pp' = [] then w_DefaultPlatforms w' else pp')
                   (b_verbose b') of
              Inl e \<Rightarrow> Build w' py' b' f' pp' ws1 = (Some e, ws1)
            | Inr (job2, lb2) \<Rightarrow>
                fst (Build w' py' b' f' pp' ws1) =
                  Some (if j_hash job2 = h \<or>
                           (\<exists>n \<in> set (ReadDir (ws_by_pid ws1)).
                              processExists w' n \<and>
                              isLinkTo ws1 (PidLink n) (BuildDir (j_hash job2)))
                        then ErrBuildInProgress (buildDir job2)
                        else ErrExist (pidLink w' job2)) \<and>
                holdsLink w' h (snd (Build w' py' b' f' pp' ws1)))"
proof -
  from Build_ok[OF first] obtain job lb0 ws_a ws_b where
    j: "newBuildJob w py f (chosen w pp) (b_verbose b) = Inr (job, lb0)" and
    s: "setup_job w job ws = (None, ws_a)" and
    a: "afterSetup w (override b lb0) job ws_a = (None, ws_b)" and
    c: "ws1 = cleanup w job ws_b"
    by blast
  let ?h = "j_hash job"
  have pe: "processExists w (Itoa (w_Getpid w))"
    using own_process_exists[OF pid alive] .
  have pe': "processExists w' (Itoa (w_Getpid w'))"
    using own_process_exists[of w'] pid alive' same by simp
  have "holdsLink w ?h ws_a" using setup_job_ok_holds[OF s] .
  then have "holdsLink w ?h ws_b"
    using afterSetup_frame(1,2)[OF a] by (simp add: holdsLink_def)
  then have h1: "holdsLink w ?h ws1" unfolding c using pe by (rule cleanup_holds(1))
  then have h1': "holdsLink w' ?h ws1" using same by (simp add: holdsLink_def)
  have fp: "w_Fingerprint w (f_Root f) = Inr ?h" using newBuildJob_hash[OF j] by simp
  have second:
    "(case newBuildJob w' py' f' (chosen w' pp') (b_verbose b') of
        Inl e \<Rightarrow> Build w' py' b' f' pp' ws1 = (Some e, ws1)
      | Inr (job2, lb2) \<Rightarrow>
          fst (Build w' py' b' f' pp' ws1) =
            Some (if j_hash job2 = ?h \<or>
                     (\<exists>n \<in> set (ReadDir (ws_by_pid ws1)).
                        processExists w' n \<and>
                        isLinkTo ws1 (PidLink n) (BuildDir (j_hash job2)))
                  then ErrBuildInProgress (buildDir job2)
                  else ErrExist (pidLink w' job2)) \<and>
          holdsLink w' ?h (snd (Build w' py' b' f' pp' ws1)))"
  proof (cases "newBuildJob w' py' f' (chosen w' pp') (b_verbose b')")
    case (Inl e)
    then show ?thesis by (simp add: Build_unfold)
  next
    case (Inr jl)
    obtain job2 lb2 where jl: "jl = (job2, lb2)" by (cases jl)
    have same_active: "isActive w' job2 ws1" if "j_hash job2 = ?h"
      using holdsLink_active[of w' job2 ws1] h1' pe' that by simp
    show ?thesis
    proof (cases "isActive w' job2 ws1")
      case True
      then have "Build w' py' b' f' pp' ws1 = (Some (ErrBuildInProgress (buildDir job2)), ws1)"
        using Inr jl by (simp add: Build_unfold setup_job_in_progress_state)
      with True h1' Inr jl show ?thesis by (simp add: isActive_ex)
    next
      case False
      then have ne: "j_hash job2 \<noteq> ?h" using same_active by blast
      from h1' have m: "map_of (ws_by_pid ws1) (Itoa (w_Getpid w')) = Some ?h"
        and d: "?h \<in> set (ReadDir (ws_by_hash ws1))" by (auto simp: holdsLink_def)
      note sp = setup_job_pid_exists[OF False m]
      obtain e2 ws2 where st: "setup_job w' job2 ws1 = (e2, ws2)"
        by (cases "setup_job w' job2 ws1")
      with sp have e2: "e2 = Some (ErrExist (pidLink w' job2))"
        and p2: "ws_by_pid ws2 = ws_by_pid ws1"
        and d2: "?h \<in> set (ReadDir (ws_by_hash ws2))"
        using d by auto
      from st e2 have "Build w' py' b' f' pp' ws1 = (Some (ErrExist (pidLink w' job2)), ws2)"
        using Inr jl by (simp add: Build_unfold)
      moreover have "holdsLink w' ?h ws2" using m p2 d2 by (simp add: holdsLink_def)
      ultimately show ?thesis using False ne Inr jl by (simp add: isActive_ex)
    qed
  qed
  from fp h1 second show ?thesis unfolding chosen_def by blast
qed

lemma example_build_dirs:
  "ReadDir (ws_by_hash (snd (Build example_world (goBuilder example_world) example_builder
      example_function [] example_empty))) = [''abc123'']"
  by (simp add: build_eval containerize_eval example_eval example_empty_def example_itoa example_atoi)

lemma example_jobs:
  "newBuildJob example_world (goBuilder example_world) example_function
     (if [] = [] then w_DefaultPlatforms example_world else []) (b_verbose example_builder) =
   Inr (example_job, goBuilder example_world)"
  "newBuildJob example_changed (goBuilder example_world) example_function
     (if [] = [] then w_DefaultPlatforms example_changed else []) (b_verbose example_builder) =
   Inr (example_job\<lparr>j_hash := ''def456''\<rparr>, goBuilder example_changed)"
  by (simp_all add: newBuildJob_def builders_def toPlatforms_def example_eval example_changed_def)

lemma example_paths:
  "buildDir example_job = ''/proj/.func/builds/by-hash/abc123''"
  "pidLink example_changed (example_job\<lparr>j_hash := ''def456''\<rparr>) = ''/proj/.func/builds/by-pid/4242''"
  by (simp_all add: buildDir_def pidLink_def RunDataDir_def example_eval example_changed_def
        example_itoa Clean_def clean_elems_def clean_step_def IsAbs_def)

theorem second_build_fails_witness:
  "fst (Build example_world (goBuilder example_world) example_builder example_function []
     (snd (Build example_world (goBuilder example_world) example_builder example_function []
             example_empty))) =
     Some (ErrBuildInProgress ''/proj/.func/builds/by-hash/abc123'') \<and>
   fst (Build example_changed (goBuilder example_world) example_builder example_function []
     (snd (Build example_world (goBuilder example_world) example_builder example_function []
             example_empty))) =
     Some (ErrExist ''/proj/.func/builds/by-pid/4242'')"
proof -
  let ?first = "Build example_world (goBuilder example_world) example_builder example_function []
                  example_empty"
  have first: "?first = (None, snd ?first)"
    using example_build_ok by (simp add: prod_eq_iff)
  have w: "0 \<le> w_Getpid example_world" "w_Getpid example_world < 2 ^ 63"
          "w_FindProcess example_world (w_Getpid example_world)"
          "w_windows example_world \<or> w_Signal0 example_world (w_Getpid example_world)"
          "w_Getpid example_changed = w_Getpid example_world"
          "w_FindProcess example_changed (w_Getpid example_world)"
          "w_windows example_changed \<or> w_Signal0 example_changed (w_Getpid example_world)"
    by (simp_all add: example_world_def example_changed_def)
  have fp: "w_Fingerprint example_world (f_Root example_function) = Inr h \<Longrightarrow> h = ''abc123''" for h
    by (simp add: example_world_def)
  have hj: "j_hash example_job = ''abc123''" by (simp add: example_job_def)
  have no_other: "\<not> isLinkTo (snd ?first) (PidLink n) (BuildDir ''def456'')" for n
    by (simp add: isLinkTo_pid example_build_dirs)
  from second_build_fails[OF first w(1-4) refl w(3,4), where py' = "goBuilder example_world"
         and b' = example_builder and f' = example_function and pp' = "[]"]
  have 1: "fst (Build example_world (goBuilder example_world) example_builder example_function []
             (snd ?first)) = Some (ErrBuildInProgress ''/proj/.func/builds/by-hash/abc123'')"
    unfolding example_jobs using fp hj by (auto simp: example_paths)
  from second_build_fails[OF first w, where py' = "goBuilder example_world"
         and b' = example_builder and f' = example_function and pp' = "[]"]
  have 2: "fst (Build example_changed (goBuilder example_world) example_builder example_function []
             (snd ?first)) = Some (ErrExist ''/proj/.func/builds/by-pid/4242'')"
    unfolding example_jobs using fp no_other by (auto simp: example_paths)
  from 1 2 show ?thesis by simp
qed

lemma example_two_first:
  "Build example_two (goBuilder example_two) example_builder example_function [] example_other =
     (None, snd (Build example_two (goBuilder example_two) example_builder example_function []
                   example_other))"
  by (simp add: prod_eq_iff)
     (simp add: build_eval containerize_eval example_eval example_other_def example_two_def
        example_itoa example_atoi)

text \<open>
  C10 as stated fails where another live process holds a link to the new fingerprint:
  the second build of process 4242, with a changed fingerprint, fails with
  \<open>ErrBuildInProgress\<close>, not with the error of \<open>os.Symlink\<close>.
\<close>

theorem second_build_in_progress_counterexample:
  "fst (Build example_two (goBuilder example_two) example_builder example_function []
          example_other) = None \<and>
   w_Fingerprint example_two ''/proj'' = Inr ''abc123'' \<and>
   w_Fingerprint example_two_changed ''/proj'' = Inr ''def456'' \<and>
   fst (Build example_two_changed (goBuilder example_two_changed) example_builder example_function []
          (snd (Build example_two (goBuilder example_two) example_builder example_function []
                  example_other))) =
     Some (ErrBuildInProgress ''/proj/.func/builds/by-hash/def456'')"
  by (simp add: build_eval containerize_eval example_eval example_other_def example_two_def
        example_two_changed_def example_itoa example_atoi)

section \<open>Blobs and manifests\<close>

lemma addressed_upd:
  "addressed w files \<Longrightarrow> addressed w (files(w_sha256hex w bs \<mapsto> bs))"
  by (auto simp: addressed_def)

lemma tarballToBlob_intact:
  "intact w fs \<Longrightarrow> intact w (snd (tarballToBlob w target fs))"
  by (auto simp: tarballToBlob_def Let_def newDescriptor_def LayerFromFile_def sha256_def
        intact_def addressed_upd)

lemma writeDataLayer_intact:
  "intact w fs \<Longrightarrow> intact w (snd (writeDataLayer w job fs))"
  by (auto simp: writeDataLayer_def Let_def tarballToBlob_intact split: sum.splits prod.splits option.splits)

lemma writeCertsLayer_intact:
  "intact w fs \<Longrightarrow> intact w (snd (writeCertsLayer w job fs))"
  by (auto simp: writeCertsLayer_def tarballToBlob_intact split: prod.splits option.splits)

lemma writeAsJSONBlob_intact:
  "intact w fs \<Longrightarrow> intact w (snd (writeAsJSONBlob w tempName data fs))"
  by (auto simp: writeAsJSONBlob_def Let_def sha256_def intact_def addressed_upd)

lemma writeConfig_intact:
  "intact w fs \<Longrightarrow> intact w (snd (writeConfig w configFile fs))"
  using writeAsJSONBlob_intact[of w fs "''config.json''" "ConfigDoc configFile"]
  by (auto simp: writeConfig_def split: prod.splits)

lemma writeManifest_intact:
  "intact w fs \<Longrightarrow> intact w (snd (writeManifest w p base configDesc layers fs))"
  using writeAsJSONBlob_intact[of w fs]
  by (auto simp: writeManifest_def Let_def split: prod.splits sum.splits option.splits)
     (metis snd_conv)+

lemma ensureCached_intact:
  assumes "ensureCached layer fs = (None, fs')" "intact w fs" "faithful w layer"
  shows "intact w fs'"
  using assms
  by (auto simp: ensureCached_def intact_def faithful_def addressed_def
           split: sum.splits if_splits prod.splits)

lemma writeBaseLayer_intact:
  assumes "writeBaseLayer layer fs = (None, fs')" "intact w fs" "faithful w layer"
  shows "intact w fs'"
proof -
  obtain r fs1 where e: "ensureCached layer fs = (r, fs1)" by (cases "ensureCached layer fs")
  with assms(1) have r: "r = None" by (auto simp: writeBaseLayer_def split: option.splits)
  have i1: "intact w fs1" using ensureCached_intact[OF e[unfolded r] assms(2,3)] .
  from assms(1) e r i1 show ?thesis
    by (auto simp: writeBaseLayer_def intact_def addressed_def
             split: sum.splits if_splits option.splits)
qed

lemma writeBaseLayers_intact:
  assumes "writeBaseLayers layers fs = (None, fs')" "intact w fs"
          "\<forall>layer \<in> set layers. faithful w layer"
  shows "intact w fs'"
  using assms
proof (induction layers arbitrary: fs)
  case Nil
  then show ?case by simp
next
  case (Cons l ls)
  obtain r fs1 where b: "writeBaseLayer l fs = (r, fs1)" by (cases "writeBaseLayer l fs")
  with Cons.prems(1) have r: "r = None" by (auto split: option.splits)
  have "intact w fs1" using writeBaseLayer_intact[OF b[unfolded r] Cons.prems(2)] Cons.prems(3) by simp
  moreover from Cons.prems(1) b r have "writeBaseLayers ls fs1 = (None, fs')" by simp
  ultimately show ?case using Cons.IH Cons.prems(3) by simp
qed

lemma pullBase_intact:
  assumes "pullBase w lb job p fs = (Inr base, fs')" "intact w fs" "faithful_registry w"
  shows "intact w fs'"
proof (cases "lb_Base lb (f_BaseImage (j_function job)) = []")
  case True
  with assms show ?thesis by (simp add: pullBase_def)
next
  case False
  with assms(1) obtain img layers where
    r: "w_remote w (lb_Base lb (f_BaseImage (j_function job))) p = Inr img" and
    l: "img_Layers img = Inr layers" and
    b: "writeBaseLayers layers fs = (None, fs')"
    by (auto simp: pullBase_def Let_def split: sum.splits prod.splits option.splits)
  from assms(3) r l have "\<forall>layer \<in> set layers. faithful w layer"
    unfolding faithful_registry_def by blast
  from writeBaseLayers_intact[OF b assms(2) this] show ?thesis .
qed

lemma containerizePlatform_intact:
  assumes "containerizePlatform w lb job sharedLayers p fs = (Inr md, fs')" "intact w fs"
          "faithful_registry w" "keeps_intact w lb"
  shows "intact w fs'"
proof -
  obtain r1 fs1 where wp: "lb_WritePlatform lb job p fs = (r1, fs1)"
    by (cases "lb_WritePlatform lb job p fs")
  have i1: "intact w fs1" using assms(2,4) wp unfolding keeps_intact_def by (metis snd_conv)
  from assms(1) wp obtain pl where r1: "r1 = Inr pl"
    by (cases r1) (auto simp: containerizePlatform_def)
  obtain r2 fs2 where pb: "pullBase w lb job p fs1 = (r2, fs2)" by (cases "pullBase w lb job p fs1")
  from assms(1) wp r1 pb obtain base where r2: "r2 = Inr base"
    by (cases r2) (auto simp: containerizePlatform_def Let_def)
  have i2: "intact w fs2" using pullBase_intact[OF pb[unfolded r2] i1 assms(3)] .
  from assms(1) wp r1 pb r2 obtain cf config layers where
    "fs' = snd (writeManifest w p base config layers (snd (writeConfig w cf fs2)))"
    by (auto simp: containerizePlatform_def Let_def split: sum.splits prod.splits)
       (metis snd_conv)
  with i2 show ?thesis by (simp add: writeManifest_intact writeConfig_intact)
qed

lemma containerizePlatforms_intact:
  assumes "containerizePlatforms w lb job sharedLayers ps acc fs = (Inr mds, fs')" "intact w fs"
          "faithful_registry w" "keeps_intact w lb"
  shows "intact w fs'"
  using assms
proof (induction ps arbitrary: acc fs)
  case Nil
  then show ?case by simp
next
  case (Cons p ps)
  obtain r fs1 where c: "containerizePlatform w lb job sharedLayers p fs = (r, fs1)"
    by (cases "containerizePlatform w lb job sharedLayers p fs")
  with Cons.prems(1) obtain md where r: "r = Inr md" by (cases r) auto
  have "intact w fs1"
    using containerizePlatform_intact[OF c[unfolded r] Cons.prems(2,3,4)] .
  moreover from Cons.prems(1) c r have
    "containerizePlatforms w lb job sharedLayers ps (acc @ [md]) fs1 = (Inr mds, fs')" by simp
  ultimately show ?case using Cons.IH Cons.prems(3,4) by blast
qed

lemma containerize_intact:
  assumes "containerize w lb job fs = (None, fs')" "intact w fs"
          "faithful_registry w" "keeps_intact w lb"
  shows "intact w fs'"
proof -
  let ?fs0 = "fs\<lparr>fs_layout := Some ociLayout\<rparr>"
  have i0: "intact w ?fs0" using assms(2) by (simp add: intact_def)
  obtain r1 fs1 where d: "writeDataLayer w job ?fs0 = (r1, fs1)" by (cases "writeDataLayer w job ?fs0")
  have i1: "intact w fs1" using writeDataLayer_intact[OF i0, of job] d by simp
  obtain r2 fs2 where c: "writeCertsLayer w job fs1 = (r2, fs2)" by (cases "writeCertsLayer w job fs1")
  have i2: "intact w fs2" using writeCertsLayer_intact[OF i1, of job] c by simp
  obtain r3 fs3 where s: "lb_WriteShared lb job fs2 = (r3, fs3)" by (cases "lb_WriteShared lb job fs2")
  have i3: "intact w fs3" using assms(4) i2 s unfolding keeps_intact_def by (metis snd_conv)
  from assms(1) d c s obtain sharedLayers mds fs4 where
    ps: "containerizePlatforms w lb job sharedLayers (j_platforms job) [] fs3 = (Inr mds, fs4)" and
    f: "fs' = writeIndex w mds fs4"
    by (auto simp: containerize_def Let_def split: sum.splits prod.splits)
  have "intact w fs4" using containerizePlatforms_intact[OF ps i3 assms(3,4)] .
  with f show ?thesis by (simp add: writeIndex_def intact_def)
qed

lemma goBuilder_keeps_intact: "keeps_intact w (goBuilder w)"
  unfolding keeps_intact_def goBuilder_def
  using tarballToBlob_intact
  by (auto simp: goBuilder_WritePlatform_def split: sum.splits prod.splits option.splits)
     (metis snd_conv)+

lemma map_of_map_const:
  "map_of (map (\<lambda>(h, d). if h = k then (h, c) else (h, d)) xs) k =
     (case map_of xs k of None \<Rightarrow> None | Some d \<Rightarrow> Some c)"
  by (induction xs) auto

lemma map_of_map_upd:
  "map_of (map (\<lambda>(h, d). if h = k then (h, g d) else (h, d)) xs) k = map_option g (map_of xs k)"
  by (induction xs) auto

lemma setup_job_dir:
  assumes "setup_job w job ws = (None, ws1)"
  shows "map_of (ws_by_hash ws1) (j_hash job) = Some emptyDir" "ws_cache ws1 = ws_cache ws"
proof -
  let ?h = "j_hash job"
  let ?xs = "(if ?h \<in> set (ReadDir (ws_by_hash ws)) then RemoveAll ?h (ws_by_hash ws)
             else ws_by_hash ws)"
  have none: "map_of ?xs ?h = None"
  proof (cases "?h \<in> set (ReadDir (ws_by_hash ws))")
    case True
    then show ?thesis by (simp add: map_of_RemoveAll)
  next
    case False
    then show ?thesis by (simp add: map_of_eq_None_iff ReadDir_def)
  qed
  from assms have "ws_by_hash ws1 = ?xs @ [(?h, emptyDir)]"
    by (auto simp: setup_job_def Let_def split: if_splits)
  with map_of_snoc_fresh[OF none, of emptyDir]
  show "map_of (ws_by_hash ws1) ?h = Some emptyDir" by (simp del: map_of_append)
  from assms show "ws_cache ws1 = ws_cache ws"
    by (auto simp: setup_job_def Let_def split: if_splits)
qed

lemma afterSetup_dir:
  assumes a: "afterSetup w lb job ws1 = (None, ws4)"
      and d: "map_of (ws_by_hash ws1) (j_hash job) = Some emptyDir"
      and c: "addressed w (ws_cache ws1)"
      and reg: "faithful_registry w" and plug: "keeps_intact w lb"
  shows "\<exists>dir. map_of (ws_by_hash ws4) (j_hash job) = Some dir \<and>
               addressed w (bd_blobs dir) \<and> addressed w (ws_cache ws4)"
proof -
  let ?h = "j_hash job"
  obtain r2 ws2 where s: "scaffold w job ws1 = (r2, ws2)" by (cases "scaffold w job ws1")
  with a have r2: "r2 = None" by (auto simp: afterSetup_def split: option.splits)
  from s r2 obtain certs where
    d2: "map_of (ws_by_hash ws2) ?h = Some (emptyDir\<lparr>bd_certs := certs\<rparr>)" and
    c2: "ws_cache ws2 = ws_cache ws1"
    using d by (auto simp: scaffold_def map_of_map_upd split: sum.splits)
  obtain r3 ws3 where cj: "containerizeJob w lb job ws2 = (r3, ws3)"
    by (cases "containerizeJob w lb job ws2")
  with a s r2 have r3: "r3 = None" by (auto simp: afterSetup_def split: option.splits)
  let ?fs = "\<lparr>fs_blobs = bd_blobs (emptyDir\<lparr>bd_certs := certs\<rparr>), fs_cache = ws_cache ws2,
              fs_certs = bd_certs (emptyDir\<lparr>bd_certs := certs\<rparr>),
              fs_layout = bd_layout (emptyDir\<lparr>bd_certs := certs\<rparr>),
              fs_index = bd_index (emptyDir\<lparr>bd_certs := certs\<rparr>)\<rparr>"
  obtain r fs' where co: "containerize w lb job ?fs = (r, fs')"
    by (cases "containerize w lb job ?fs")
  from cj r3 d2 co have r: "r = None" and
    ws3: "ws3 = ws2\<lparr>ws_by_hash :=
                     map (\<lambda>(h, d). if h = ?h
                                    then (h, \<lparr>bd_blobs = fs_blobs fs', bd_certs = fs_certs fs',
                                              bd_layout = fs_layout fs', bd_index = fs_index fs'\<rparr>)
                                    else (h, d))
                         (ws_by_hash ws2),
                   ws_cache := fs_cache fs'\<rparr>"
    by (auto simp: containerizeJob_def)
  have "intact w ?fs" using c c2 by (simp add: intact_def emptyDir_def addressed_def)
  from containerize_intact[OF co[unfolded r] this reg plug] have i: "intact w fs'" .
  from a s r2 cj r3 have u: "updateLastLink job ws3 = (None, ws4)"
    by (simp add: afterSetup_def)
  then have "ws_by_hash ws4 = ws_by_hash ws3" "ws_cache ws4 = ws_cache ws3"
    by (auto simp: updateLastLink_def Let_def split: sum.splits)
  with ws3 d2 i show ?thesis
    by (simp add: map_of_map_const intact_def)
qed

lemma cleanup_builds_keeps_last_dir:
  "ws_last ws = Some d \<Longrightarrow> map_of (ws_by_hash ws) d = Some dir \<Longrightarrow>
     map_of (ws_by_hash (cleanup_builds w job ds ws)) d = Some dir"
proof (induction ds arbitrary: ws)
  case Nil
  then show ?case by simp
next
  case (Cons x xs)
  show ?case
  proof (cases "isLinkTo ws LastLink (BuildDir x) \<or> isActive w job ws")
    case True
    with Cons show ?thesis by auto
  next
    case False
    from Cons.prems(2) have "d \<in> set (ReadDir (ws_by_hash ws))"
      by (auto simp: ReadDir_def dest: map_of_SomeD intro: rev_image_eqI)
    with False Cons.prems have "x \<noteq> d" by (auto simp: isLinkTo_last)
    with Cons.prems have
      "map_of (ws_by_hash (ws\<lparr>ws_by_hash := RemoveAll x (ws_by_hash ws)\<rparr>)) d = Some dir"
      by (simp add: map_of_RemoveAll)
    with Cons.IH[of "ws\<lparr>ws_by_hash := RemoveAll x (ws_by_hash ws)\<rparr>"] Cons.prems(1) False
    show ?thesis by simp
  qed
qed

lemma cleanup_dir:
  assumes "ws_last ws = Some d" "map_of (ws_by_hash ws) d = Some dir"
  shows "map_of (ws_by_hash (cleanup w job ws)) d = Some dir"
    and "ws_cache (cleanup w job ws) = ws_cache ws"
proof -
  show "map_of (ws_by_hash (cleanup w job ws)) d = Some dir"
    unfolding cleanup_def Let_def
    by (rule cleanup_builds_keeps_last_dir) (simp_all add: cleanup_pids_frame assms)
  show "ws_cache (cleanup w job ws) = ws_cache ws"
    by (simp add: cleanup_def Let_def cleanup_builds_frame cleanup_pids_frame)
qed

text \<open>
  C1, amended. After a successful build with the Go builder, every blob of the build
  directory of its fingerprint is named by the hex of the sha256 of its bytes, provided
  the files that were in the blob cache before the build are so named and every base
  layer the registry delivers whole has the bytes of its digest. The cache is still so
  named afterwards.
\<close>

theorem blobs_content_addressed:
  assumes run: "Build w py b f pp ws = (None, ws')"
      and cache: "addressed w (ws_cache ws)"
      and reg: "faithful_registry w"
      and go: "f_Runtime f = ''go''" "b_impl b = None"
  shows "\<exists>h dir. w_Fingerprint w (f_Root f) = Inr h \<and>
                 map_of (ws_by_hash ws') h = Some dir \<and>
                 addressed w (bd_blobs dir) \<and> addressed w (ws_cache ws')"
proof -
  from Build_ok[OF run] obtain job lb0 ws1 ws4 where
    j: "newBuildJob w py f (chosen w pp) (b_verbose b) = Inr (job, lb0)" and
    s: "setup_job w job ws = (None, ws1)" and
    a: "afterSetup w (override b lb0) job ws1 = (None, ws4)" and
    c: "ws' = cleanup w job ws4"
    by blast
  from j go(1) have "lb0 = goBuilder w"
    by (auto simp: newBuildJob_def Let_def builders_def split: sum.splits)
  with go(2) have lb: "override b lb0 = goBuilder w" by (simp add: override_def)
  note sd = setup_job_dir[OF s]
  from afterSetup_dir[OF a[unfolded lb] sd(1) _ reg goBuilder_keeps_intact] cache sd(2)
  obtain dir where
    d4: "map_of (ws_by_hash ws4) (j_hash job) = Some dir" and
    ad: "addressed w (bd_blobs dir)" "addressed w (ws_cache ws4)"
    by auto
  have l4: "ws_last ws4 = Some (j_hash job)" using afterSetup_frame(3)[OF a] by simp
  note cd = cleanup_dir[OF l4 d4, of w job]
  with ad c newBuildJob_hash[OF j] show ?thesis by auto
qed

lemma example_registry: "faithful_registry example_world"
  by (auto simp: faithful_registry_def faithful_def example_world_def example_base_def
        example_baseLayer_def)

theorem blobs_content_addressed_witness:
  "\<exists>dir. map_of (ws_by_hash (snd (Build example_world (goBuilder example_world) example_builder
                                     example_function [] example_empty))) ''abc123'' = Some dir \<and>
         addressed example_world (bd_blobs dir)"
proof -
  let ?first = "Build example_world (goBuilder example_world) example_builder example_function []
                  example_empty"
  have run: "?first = (None, snd ?first)"
    using example_build_ok by (simp add: prod_eq_iff)
  have cache: "addressed example_world (ws_cache example_empty)"
    by (simp add: addressed_def example_empty_def)
  have go: "f_Runtime example_function = ''go''" "b_impl example_builder = None"
    by (simp_all add: example_function_def example_builder_def)
  from blobs_content_addressed[OF run cache example_registry go]
  show ?thesis by (auto simp: example_world_def)
qed

lemma example_itoa2: "Itoa 4141 = ''4141''"
  by (simp add: Itoa_def itoa_nat.simps digit_char_def)

lemma example_atoi2: "Atoi ''4141'' = Some 4141"
  by (simp add: Atoi_def digit_val_def)

text \<open>
  C1 as stated fails on a cache file that is not what its name says. A build whose
  download of the base layer breaks leaves the truncated file in the cache under the
  digest of the layer; the next build, by another process, finds the file, links it into
  its blobs and succeeds.
\<close>

theorem corrupt_cache_counterexample:
  "fst (Build example_broken (goBuilder example_broken) example_builder example_function []
          example_empty) = Some (ErrExternal ''connection reset'') \<and>
   fst (Build example_world (goBuilder example_world) example_builder example_function []
          (snd (Build example_broken (goBuilder example_broken) example_builder example_function []
                  example_empty))) = None \<and>
   map_option (\<lambda>dir. bd_blobs dir ''#base layer'')
     (map_of (ws_by_hash
        (snd (Build example_world (goBuilder example_world) example_builder example_function []
           (snd (Build example_broken (goBuilder example_broken) example_builder example_function []
                   example_empty))))) ''abc123'') = Some (Some ''base'') \<and>
   w_sha256hex example_world ''base'' \<noteq> ''#base layer''"
  by (simp add: build_eval containerize_eval example_eval example_empty_def example_broken_def
        example_broken_base_def example_itoa example_atoi example_itoa2 example_atoi2)

lemma appendDescriptors_map:
  "appendDescriptors acc ls = acc @ map il_Descriptor ls"
  by (induction ls arbitrary: acc) auto

lemma newConfigFile_diffIDs:
  assumes "newConfigFile w job p base layers = Inr cfg"
  shows "map Inr (cf_RootFS_DiffIDs cfg) =
           map Inr (baseDiffIDs base) @ map (\<lambda>l. l_DiffID (il_Layer l)) layers"
proof -
  from assms obtain ds where ds: "populateDiffIDs layers [] = Inr ds"
    unfolding newConfigFile_def Let_def by (cases "populateDiffIDs layers []") auto
  from populateDiffIDs_acc[OF ds] have m: "map (\<lambda>l. l_DiffID (il_Layer l)) layers = map Inr ds"
    by simp
  from assms ds have "cf_RootFS_DiffIDs cfg = baseDiffIDs base @ ds"
    unfolding newConfigFile_def Let_def baseDiffIDs_def
    by (auto split: option.splits sum.splits if_splits)
  with m show ?thesis by simp
qed

lemma containerizePlatform_image:
  assumes run: "containerizePlatform w lb job ([data, certs] @ shared) p fs = (Inr md, fs')"
      and cfg: "\<And>j q cf cf'. lb_Configure lb j q cf = Inr cf' \<Longrightarrow>
                  cf_RootFS_DiffIDs cf' = cf_RootFS_DiffIDs cf"
  shows "platform_image w lb job data certs shared p md"
proof -
  let ?sl = "[data, certs] @ shared"
  obtain r1 fs1 where wp: "lb_WritePlatform lb job p fs = (r1, fs1)"
    by (cases "lb_WritePlatform lb job p fs")
  from run wp obtain pl where r1: "r1 = Inr pl"
    by (cases r1) (auto simp: containerizePlatform_def)
  obtain r2 fs2 where pb: "pullBase w lb job p fs1 = (r2, fs2)" by (cases "pullBase w lb job p fs1")
  from run wp r1 pb obtain base where r2: "r2 = Inr base"
    by (cases r2) (auto simp: containerizePlatform_def Let_def)
  from run wp r1 pb r2 obtain cf0 where n: "newConfigFile w job p base (?sl @ pl) = Inr cf0"
    by (cases "newConfigFile w job p base (?sl @ pl)") (auto simp: containerizePlatform_def Let_def)
  from run wp r1 pb r2 n obtain cf where c: "lb_Configure lb job p cf0 = Inr cf"
    by (cases "lb_Configure lb job p cf0") (auto simp: containerizePlatform_def Let_def)
  obtain config fs3 where wc: "writeConfig w cf fs2 = (config, fs3)" by (cases "writeConfig w cf fs2")
  from run wp r1 pb r2 n c wc have
    wm: "writeManifest w p base config (?sl @ pl) fs3 = (Inr md, fs')"
    by (simp add: containerizePlatform_def Let_def)
  from wc have cd: "d_Digest config = sha256 w (w_json w (ConfigDoc cf))"
    by (auto simp: writeConfig_def writeAsJSONBlob_def Let_def)
  let ?m = "\<lparr>m_SchemaVersion = 2, m_MediaType = OCIManifestSchema1, m_Config = config,
             m_Layers = baseDescriptors base @ map il_Descriptor (?sl @ pl)\<rparr>"
  from wm have md: "d_Digest md = sha256 w (w_json w (ManifestDoc ?m))" "d_Platform md = Some p"
    by (auto simp: writeManifest_def writeAsJSONBlob_def Let_def appendDescriptors_map
          baseDescriptors_def split: option.splits sum.splits)
  have di: "map Inr (cf_RootFS_DiffIDs cf) =
              map Inr (baseDiffIDs base) @ map (\<lambda>l. l_DiffID (il_Layer l)) (?sl @ pl)"
    using newConfigFile_diffIDs[OF n] cfg[OF c] by simp
  show ?thesis
    unfolding platform_image_def
    apply (rule exI[of _ pl], rule exI[of _ base], rule exI[of _ ?m], rule exI[of _ cf])
    apply (rule exI[of _ fs], rule exI[of _ fs1], rule exI[of _ fs2])
    using wp r1 pb r2 md cd di by simp
qed

lemma containerizePlatforms_images:
  assumes "containerizePlatforms w lb job ([data, certs] @ shared) ps acc fs = (Inr mds, fs')"
      and "\<And>j q cf cf'. lb_Configure lb j q cf = Inr cf' \<Longrightarrow>
             cf_RootFS_DiffIDs cf' = cf_RootFS_DiffIDs cf"
  shows "\<exists>new. mds = acc @ new \<and> list_all2 (platform_image w lb job data certs shared) ps new"
  using assms(1)
proof (induction ps arbitrary: acc fs)
  case Nil
  then show ?case by simp
next
  case (Cons p ps)
  obtain r fs1 where c: "containerizePlatform w lb job ([data, certs] @ shared) p fs = (r, fs1)"
    by (cases "containerizePlatform w lb job ([data, certs] @ shared) p fs")
  with Cons.prems obtain md where r: "r = Inr md" by (cases r) auto
  have img: "platform_image w lb job data certs shared p md"
    using containerizePlatform_image[OF c[unfolded r] assms(2)] .
  from Cons.prems c r have
    "containerizePlatforms w lb job ([data, certs] @ shared) ps (acc @ [md]) fs1 = (Inr mds, fs')"
    by simp
  from Cons.IH[OF this] obtain new where
    "mds = (acc @ [md]) @ new" "list_all2 (platform_image w lb job data certs shared) ps new"
    by blast
  with img show ?case by (intro exI[of _ "md # new"]) simp
qed

text \<open>
  C2. After a successful containerize, \<open>index.json\<close> lists one manifest per platform
  of the job, in order, and each is a \<open>platform_image\<close>: its layers are the base's
  layers, the data layer, the certificates layer, the builder's shared layers and its
  layers for the platform, in this order, and the config it refers to lists the diffIDs
  of exactly these layers in the same order. (For a builder whose \<open>Configure\<close> leaves
  the diffIDs alone, as the Go builder's does.)
\<close>

theorem manifest_layer_order:
  assumes run: "containerize w lb job fs = (None, fs')"
      and keeps: "\<forall>j q cf cf'. lb_Configure lb j q cf = Inr cf' \<longrightarrow>
                    cf_RootFS_DiffIDs cf' = cf_RootFS_DiffIDs cf"
  shows "\<exists>data certs shared manifests fs1 fs2 fs3.
           writeDataLayer w job (fs\<lparr>fs_layout := Some ociLayout\<rparr>) = (Inr data, fs1) \<and>
           writeCertsLayer w job fs1 = (Inr certs, fs2) \<and>
           lb_WriteShared lb job fs2 = (Inr shared, fs3) \<and>
           fs_index fs' =
             Some (w_json w (IndexDoc \<lparr>ix_SchemaVersion = 2, ix_MediaType = OCIImageIndex,
                                         ix_Manifests = manifests\<rparr>)) \<and>
           list_all2 (platform_image w lb job data certs shared) (j_platforms job) manifests"
proof -
  have cfg: "\<And>j q cf cf'. lb_Configure lb j q cf = Inr cf' \<Longrightarrow>
               cf_RootFS_DiffIDs cf' = cf_RootFS_DiffIDs cf"
    using keeps by blast
  let ?fs0 = "fs\<lparr>fs_layout := Some ociLayout\<rparr>"
  obtain r1 fs1 where d: "writeDataLayer w job ?fs0 = (r1, fs1)" by (cases "writeDataLayer w job ?fs0")
  from run d obtain data where r1: "r1 = Inr data"
    by (cases r1) (auto simp: containerize_def Let_def)
  obtain r2 fs2 where c: "writeCertsLayer w job fs1 = (r2, fs2)" by (cases "writeCertsLayer w job fs1")
  from run d r1 c obtain certs where r2: "r2 = Inr certs"
    by (cases r2) (auto simp: containerize_def Let_def)
  obtain r3 fs3 where s: "lb_WriteShared lb job fs2 = (r3, fs3)" by (cases "lb_WriteShared lb job fs2")
  from run d r1 c r2 s obtain shared where r3: "r3 = Inr shared"
    by (cases r3) (auto simp: containerize_def Let_def)
  obtain r4 fs4 where
    ps: "containerizePlatforms w lb job ([data, certs] @ shared) (j_platforms job) [] fs3 = (r4, fs4)"
    by (cases "containerizePlatforms w lb job ([data, certs] @ shared) (j_platforms job) [] fs3")
  from run d r1 c r2 s r3 ps obtain mds where r4: "r4 = Inr mds" and f: "fs' = writeIndex w mds fs4"
    by (cases r4) (auto simp: containerize_def Let_def)
  from containerizePlatforms_images[OF ps[unfolded r4] cfg]
  have "list_all2 (platform_image w lb job data certs shared) (j_platforms job) mds" by simp
  with d r1 c r2 s r3 f show ?thesis
    by (auto simp: writeIndex_def)
qed

lemma example_containerize_ok:
  "containerize example_world (goBuilder example_world) example_job example_fs =
     (None, snd (containerize example_world (goBuilder example_world) example_job example_fs))"
  by (simp add: prod_eq_iff)
     (simp add: containerize_eval example_eval example_fs_def)

theorem manifest_layer_order_witness:
  "\<exists>data certs shared manifests.
     fs_index (snd (containerize example_world (goBuilder example_world) example_job example_fs)) =
       Some (w_json example_world
               (IndexDoc \<lparr>ix_SchemaVersion = 2, ix_MediaType = OCIImageIndex,
                          ix_Manifests = manifests\<rparr>)) \<and>
     list_all2 (platform_image example_world (goBuilder example_world) example_job data certs shared)
       [example_platform] manifests"
proof -
  have cfg: "\<forall>j q cf cf'. lb_Configure (goBuilder example_world) j q cf = Inr cf' \<longrightarrow>
               cf_RootFS_DiffIDs cf' = cf_RootFS_DiffIDs cf"
    by (auto simp: goBuilder_def goBuilder_Configure_def)
  from manifest_layer_order[OF example_containerize_ok cfg]
  show ?thesis by (auto simp: example_job_def)
qed

end
